theory Spec2Isabelle
  imports Complex_Main
begin

section \<open>The training loop of \<^verbatim>\<open>kornia/x/trainer.py\<close>\<close>

text \<open>
  The module defines one class, \<^verbatim>\<open>Trainer\<close>, whose constructor prepares the training
  objects and binds the caller's callbacks, and whose methods \<^verbatim>\<open>fit\<close> and
  \<^verbatim>\<open>fit_epoch\<close> drive the epoch and batch loops.

  Everything numerical lives in libraries outside the module (torch, accelerate,
  logging) and in the callables handed to the constructor. They are parameters of the
  model: opaque objects of a type \<open>'a\<close>, and functions that read and change an opaque
  world \<open>'w\<close> (model parameters, gradients, optimizer and scheduler state, whatever a
  user callback touches). Every call into such code is assumed to return; an exception
  raised inside it would leave \<^verbatim>\<open>fit\<close> at that call. What the module itself does, the
  order of its calls, its two \<^verbatim>\<open>raise\<close> statements and its \<^verbatim>\<open>break\<close>, is modelled in
  full: each call the module makes is written to a trace.
\<close>

subsection \<open>Values\<close>

text \<open>
  Modelled from the spec: the enumeration \<^verbatim>\<open>TrainerState\<close> of \<^verbatim>\<open>kornia/x/utils.py\<close>,
  "a small enumeration indicating whether training should continue or stop". The module
  names one member, \<^verbatim>\<open>TERMINATE\<close>; any other member is kept by its name.
\<close>

datatype TrainerState = TERMINATE | Member string

text \<open>
  What a Python expression of the module can evaluate to: \<^verbatim>\<open>None\<close>, an integer
  (the epoch handed to a callback), a member of \<^verbatim>\<open>TrainerState\<close>, or any other
  object (tensor, module, data loader, statistics).
\<close>

datatype 'a pyval = PyNone | PyInt int | PyTrainerState TrainerState | PyObj 'a

text \<open>
  Modelled from the spec: the class \<^verbatim>\<open>Configuration\<close> of \<^verbatim>\<open>kornia/x/utils.py\<close>, which
  "carries hyperparameters (epoch count, etc.) consumed by the loop". The module reads
  one attribute, \<^verbatim>\<open>num_epochs\<close>.
\<close>

record Configuration =
  num_epochs :: int

text \<open>A callable takes its positional arguments and the world, and returns a value.\<close>

type_synonym ('a, 'w) callable = "'a pyval list \<Rightarrow> 'w \<Rightarrow> 'a pyval \<times> 'w"

datatype error = ModuleNotFoundError string | ValueError string

subsection \<open>The running-average meter\<close>

text \<open>
  Modelled from the spec: the class \<^verbatim>\<open>AverageMeter\<close> of \<^verbatim>\<open>kornia.metrics\<close>, which is
  imported by the module and is not part of it. It "accumulates a scalar metric (e.g.,
  loss) over a batch stream and exposes current/average values": the current value is
  that of the last update, the average is the sum of value times count divided by the
  sum of the counts. The scalar is a rational here; the rounding of floating-point
  arithmetic is not modelled.
\<close>

record AverageMeter =
  val :: rat
  avg :: rat
  sum :: rat
  count :: nat

definition AverageMeter_init :: AverageMeter where
  "AverageMeter_init = \<lparr>val = 0, avg = 0, sum = 0, count = 0\<rparr>"

definition AverageMeter_update :: "AverageMeter \<Rightarrow> rat \<Rightarrow> nat \<Rightarrow> AverageMeter" where
  "AverageMeter_update m v n =
     (let sum' = sum m + v * of_nat n;
          count' = count m + n
      in \<lparr>val = v, avg = sum' / of_nat count', sum = sum', count = count'\<rparr>)"

text \<open>
  The meter after a sequence of updates, each a value and its count, applied in order.
\<close>

definition meter_updates :: "AverageMeter \<Rightarrow> (rat \<times> nat) list \<Rightarrow> AverageMeter" where
  "meter_updates m us = foldl (\<lambda>m u. AverageMeter_update m (fst u) (snd u)) m us"

subsection \<open>The outside world\<close>

text \<open>
  The libraries the module calls. \<open>Accelerator\<close> is the name bound by the guarded
  import at the top of the module: \<open>None\<close> when the import failed, the class
  constructor otherwise. A data loader yields a finite list of \<^verbatim>\<open>(source, target)\<close>
  pairs (the module takes its \<^verbatim>\<open>len\<close>).
\<close>

record ('a, 'w) env =
  Accelerator :: "('w \<Rightarrow> 'a pyval \<times> 'w) option"
  accelerator_prepare :: "'a pyval \<Rightarrow> 'a pyval \<Rightarrow> 'w \<Rightarrow> 'a pyval \<times> 'w"
  accelerator_device :: "'a pyval \<Rightarrow> 'a pyval"
  accelerator_backward :: "'a pyval \<Rightarrow> 'a pyval \<Rightarrow> 'w \<Rightarrow> 'w"
  module_to :: "'a pyval \<Rightarrow> 'a pyval \<Rightarrow> 'w \<Rightarrow> 'a pyval \<times> 'w"
  module_train :: "'a pyval \<Rightarrow> 'w \<Rightarrow> 'w"
  module_call :: "'a pyval \<Rightarrow> ('a, 'w) callable"
  optimizer_zero_grad :: "'a pyval \<Rightarrow> 'w \<Rightarrow> 'w"
  optimizer_step :: "'a pyval \<Rightarrow> 'w \<Rightarrow> 'w"
  scheduler_step :: "'a pyval \<Rightarrow> 'w \<Rightarrow> 'w"
  loader_batches :: "'a pyval \<Rightarrow> ('a pyval \<times> 'a pyval) list"
  tensor_item :: "'a pyval \<Rightarrow> rat"
  tensor_shape0 :: "'a pyval \<Rightarrow> nat"

subsection \<open>Trace and state\<close>

text \<open>One event for each call the module makes, in the order of the calls.\<close>

datatype event =
    E_Accelerator
  | E_prepare_model
  | E_prepare_train_dataloader
  | E_prepare_valid_dataloader
  | E_criterion_to
  | E_prepare_optimizer
  | E_setattr string
  | E_getLogger
  | E_fit_epoch nat
  | E_model_train
  | E_zero_grad
  | E_preprocess
  | E_augmentations
  | E_model_call
  | E_criterion
  | E_backward
  | E_optimizer_step
  | E_losses_update
  | E_evaluate
  | E_checkpoint nat
  | E_terminate nat bool
  | E_scheduler_step

text \<open>
  A record of the \<^verbatim>\<open>train\<close> logger: the numbers the message of \<^verbatim>\<open>fit_epoch\<close> is
  formatted from.
\<close>

record log_record =
  log_epoch :: nat
  log_num_epochs :: int
  log_sample :: nat
  log_num_samples :: nat
  log_val :: rat
  log_avg :: rat

record 'w state =
  world :: 'w
  trace :: "event list"
  logged :: "log_record list"

definition emit :: "event \<Rightarrow> 'w state \<Rightarrow> 'w state" where
  "emit e s = s\<lparr>trace := trace s @ [e]\<rparr>"

definition exec :: "('w \<Rightarrow> 'w) \<Rightarrow> 'w state \<Rightarrow> 'w state" where
  "exec f s = s\<lparr>world := f (world s)\<rparr>"

definition run :: "('w \<Rightarrow> 'r \<times> 'w) \<Rightarrow> 'w state \<Rightarrow> 'r \<times> 'w state" where
  "run f s = (fst (f (world s)), s\<lparr>world := snd (f (world s))\<rparr>)"

definition logger_info :: "log_record \<Rightarrow> 'w state \<Rightarrow> 'w state" where
  "logger_info r s = s\<lparr>logged := logged s @ [r]\<rparr>"

text \<open>The events a later state has added to those of an earlier one.\<close>

definition events_since :: "'w state \<Rightarrow> 'w state \<Rightarrow> event list" where
  "events_since s s' = drop (length (trace s)) (trace s')"

subsection \<open>The trainer object\<close>

text \<open>
  The attributes \<^verbatim>\<open>__init__\<close> sets. \<open>overrides\<close> holds the instance attributes bound
  by \<^verbatim>\<open>setattr(self, fn_name, fn)\<close>: an attribute of the instance hides the method of
  the class with the same name, and a function bound this way is called without
  \<^verbatim>\<open>self\<close>.
\<close>

record ('a, 'w) trainer =
  accelerator :: "'a pyval"
  model :: "'a pyval"
  train_dataloader :: "'a pyval"
  valid_dataloader :: "'a pyval"
  criterion :: "'a pyval"
  optimizer :: "'a pyval"
  scheduler :: "'a pyval"
  config :: Configuration
  overrides :: "string \<rightharpoonup> ('a, 'w) callable"
  trainer_num_epochs :: int

definition callbacks_whitelist :: "string list" where
  "callbacks_whitelist =
     [''preprocess'', ''augmentations'', ''evaluate'', ''fit'', ''checkpoint'', ''terminate'']"

subsection \<open>The constructor\<close>

text \<open>
  The loop over \<^verbatim>\<open>callbacks.items()\<close>: the dictionary is the list of its items in
  insertion order (its keys are distinct).
\<close>

fun configure_callbacks ::
  "(string \<times> ('a, 'w) callable) list \<Rightarrow> (string \<rightharpoonup> ('a, 'w) callable) \<Rightarrow> 'w state
     \<Rightarrow> (error + (string \<rightharpoonup> ('a, 'w) callable)) \<times> 'w state" where
  "configure_callbacks [] attrs s = (Inr attrs, s)"
| "configure_callbacks ((fn_name, fn) # rest) attrs s =
     (if fn_name \<notin> set callbacks_whitelist
      then (Inl (ValueError (''Not supported: '' @ fn_name @ ''.'')), s)
      else configure_callbacks rest (attrs(fn_name \<mapsto> fn)) (emit (E_setattr fn_name) s))"

definition Trainer_init ::
  "('a, 'w) env \<Rightarrow> 'a pyval \<Rightarrow> 'a pyval \<Rightarrow> 'a pyval \<Rightarrow> 'a pyval \<Rightarrow> 'a pyval \<Rightarrow> 'a pyval
     \<Rightarrow> Configuration \<Rightarrow> (string \<times> ('a, 'w) callable) list \<Rightarrow> 'w state
     \<Rightarrow> (error + ('a, 'w) trainer) \<times> 'w state" where
  "Trainer_init env model_arg train_arg valid_arg criterion_arg optimizer_arg scheduler_arg
       config_arg callbacks s =
     (case Accelerator env of
        None \<Rightarrow>
          (Inl (ModuleNotFoundError
                  ''accelerate library is not installed: pip install kornia[x]''), s)
      | Some new_accelerator \<Rightarrow>
          (let (acc, s1) = run new_accelerator (emit E_Accelerator s);
               (m, s2) = run (accelerator_prepare env acc model_arg) (emit E_prepare_model s1);
               (tr, s3) = run (accelerator_prepare env acc train_arg)
                            (emit E_prepare_train_dataloader s2);
               (va, s4) = run (accelerator_prepare env acc valid_arg)
                            (emit E_prepare_valid_dataloader s3);
               (cr, s5) = run (module_to env criterion_arg (accelerator_device env acc))
                            (emit E_criterion_to s4);
               (opt, s6) = run (accelerator_prepare env acc optimizer_arg)
                             (emit E_prepare_optimizer s5)
           in case configure_callbacks callbacks Map.empty s6 of
                (Inl e, s7) \<Rightarrow> (Inl e, s7)
              | (Inr attrs, s7) \<Rightarrow>
                  (Inr \<lparr>accelerator = acc, model = m, train_dataloader = tr,
                        valid_dataloader = va, criterion = cr, optimizer = opt,
                        scheduler = scheduler_arg, config = config_arg, overrides = attrs,
                        trainer_num_epochs = num_epochs config_arg\<rparr>,
                   emit E_getLogger s7)))"

subsection \<open>The stages and their defaults\<close>

text \<open>
  The methods of the class that the whitelist lets a caller replace. \<^verbatim>\<open>preprocess\<close> and
  \<^verbatim>\<open>augmentations\<close> return their argument; the bodies of \<^verbatim>\<open>evaluate\<close>,
  \<^verbatim>\<open>checkpoint\<close> and \<^verbatim>\<open>terminate\<close> are \<^verbatim>\<open>...\<close>, so they return \<^verbatim>\<open>None\<close>.
\<close>

definition Trainer_preprocess :: "'a pyval \<Rightarrow> 'w \<Rightarrow> 'a pyval \<times> 'w" where
  "Trainer_preprocess x w = (x, w)"

definition Trainer_augmentations :: "'a pyval \<Rightarrow> 'w \<Rightarrow> 'a pyval \<times> 'w" where
  "Trainer_augmentations x w = (x, w)"

definition Trainer_evaluate :: "'w \<Rightarrow> 'a pyval \<times> 'w" where
  "Trainer_evaluate w = (PyNone, w)"

definition Trainer_checkpoint :: "'a pyval list \<Rightarrow> 'w \<Rightarrow> 'a pyval \<times> 'w" where
  "Trainer_checkpoint args w = (PyNone, w)"

definition Trainer_terminate :: "'a pyval list \<Rightarrow> 'w \<Rightarrow> 'a pyval \<times> 'w" where
  "Trainer_terminate args w = (PyNone, w)"

text \<open>
  Attribute lookup at a call \<^verbatim>\<open>self.name(...)\<close>: the instance attribute if
  \<^verbatim>\<open>setattr\<close> bound one, the method of the class otherwise.
\<close>

definition call_preprocess :: "('a, 'w) trainer \<Rightarrow> 'a pyval \<Rightarrow> 'w \<Rightarrow> 'a pyval \<times> 'w" where
  "call_preprocess t x =
     (case overrides t ''preprocess'' of
        Some fn \<Rightarrow> fn [x]
      | None \<Rightarrow> Trainer_preprocess x)"

definition call_augmentations :: "('a, 'w) trainer \<Rightarrow> 'a pyval \<Rightarrow> 'w \<Rightarrow> 'a pyval \<times> 'w" where
  "call_augmentations t x =
     (case overrides t ''augmentations'' of
        Some fn \<Rightarrow> fn [x]
      | None \<Rightarrow> Trainer_augmentations x)"

definition call_evaluate :: "('a, 'w) trainer \<Rightarrow> 'w \<Rightarrow> 'a pyval \<times> 'w" where
  "call_evaluate t =
     (case overrides t ''evaluate'' of
        Some fn \<Rightarrow> fn []
      | None \<Rightarrow> Trainer_evaluate)"

definition call_checkpoint :: "('a, 'w) trainer \<Rightarrow> 'a pyval list \<Rightarrow> 'w \<Rightarrow> 'a pyval \<times> 'w" where
  "call_checkpoint t args =
     (case overrides t ''checkpoint'' of
        Some fn \<Rightarrow> fn args
      | None \<Rightarrow> Trainer_checkpoint args)"

definition call_terminate :: "('a, 'w) trainer \<Rightarrow> 'a pyval list \<Rightarrow> 'w \<Rightarrow> 'a pyval \<times> 'w" where
  "call_terminate t args =
     (case overrides t ''terminate'' of
        Some fn \<Rightarrow> fn args
      | None \<Rightarrow> Trainer_terminate args)"

subsection \<open>The training pass\<close>

definition Trainer_backward :: "('a, 'w) env \<Rightarrow> ('a, 'w) trainer \<Rightarrow> 'a pyval \<Rightarrow> 'w state \<Rightarrow> 'w state" where
  "Trainer_backward env t loss s =
     exec (accelerator_backward env (accelerator t) loss) (emit E_backward s)"

text \<open>
  The body of the \<^verbatim>\<open>for\<close> loop of \<^verbatim>\<open>fit_epoch\<close>, over the pairs
  \<^verbatim>\<open>(sample_id, sample)\<close> that \<^verbatim>\<open>enumerate\<close> yields. \<open>losses\<close> is the local meter.
\<close>

fun train_loop ::
  "('a, 'w) env \<Rightarrow> ('a, 'w) trainer \<Rightarrow> nat \<Rightarrow> (nat \<times> 'a pyval \<times> 'a pyval) list
     \<Rightarrow> AverageMeter \<Rightarrow> 'w state \<Rightarrow> AverageMeter \<times> 'w state" where
  "train_loop env t epoch [] losses s = (losses, s)"
| "train_loop env t epoch ((sample_id, source, target) # rest) losses s =
     (let s1 = exec (optimizer_zero_grad env (optimizer t)) (emit E_zero_grad s);
          (img, s2) = run (call_preprocess t source) (emit E_preprocess s1);
          (img, s3) = run (call_augmentations t img) (emit E_augmentations s2);
          (output, s4) = run (module_call env (model t) [img]) (emit E_model_call s3);
          (loss, s5) = run (module_call env (criterion t) [output, target])
                         (emit E_criterion s4);
          s6 = Trainer_backward env t loss s5;
          s7 = exec (optimizer_step env (optimizer t)) (emit E_optimizer_step s6);
          losses' = AverageMeter_update losses (tensor_item env loss) (tensor_shape0 env img);
          s8 = emit E_losses_update s7;
          s9 = (if sample_id mod 50 = 0
                then logger_info
                       \<lparr>log_epoch = epoch + 1, log_num_epochs = trainer_num_epochs t,
                        log_sample = sample_id + 1,
                        log_num_samples = length (loader_batches env (train_dataloader t)),
                        log_val = val losses', log_avg = avg losses'\<rparr> s8
                else s8)
      in train_loop env t epoch rest losses' s9)"

definition Trainer_fit_epoch :: "('a, 'w) env \<Rightarrow> ('a, 'w) trainer \<Rightarrow> nat \<Rightarrow> 'w state \<Rightarrow> 'w state" where
  "Trainer_fit_epoch env t epoch s =
     (let s0 = exec (module_train env (model t)) (emit E_model_train s);
          losses = AverageMeter_init
      in snd (train_loop env t epoch
                (enumerate 0 (loader_batches env (train_dataloader t))) losses s0))"

subsection \<open>The main loop\<close>

text \<open>
  The \<^verbatim>\<open>for\<close> loop of \<^verbatim>\<open>fit\<close> over the epochs of \<^verbatim>\<open>range(self.num_epochs)\<close>. The
  event of the \<^verbatim>\<open>terminate\<close> call records whether the comparison
  \<^verbatim>\<open>state == TrainerState.TERMINATE\<close> held, that is, whether the loop breaks.
\<close>

fun fit_loop :: "('a, 'w) env \<Rightarrow> ('a, 'w) trainer \<Rightarrow> nat list \<Rightarrow> 'w state \<Rightarrow> 'w state" where
  "fit_loop env t [] s = s"
| "fit_loop env t (epoch # rest) s =
     (let s1 = Trainer_fit_epoch env t epoch (emit (E_fit_epoch epoch) s);
          (valid_stats, s2) = run (call_evaluate t) (emit E_evaluate s1);
          (ignored, s3) = run (call_checkpoint t [model t, PyInt (int epoch), valid_stats])
                            (emit (E_checkpoint epoch) s2);
          (state, s4) = run (call_terminate t [model t, PyInt (int epoch), valid_stats]) s3;
          s5 = emit (E_terminate epoch (state = PyTrainerState TERMINATE)) s4
      in if state = PyTrainerState TERMINATE then s5
         else fit_loop env t rest
                (exec (scheduler_step env (scheduler t)) (emit E_scheduler_step s5)))"

definition Trainer_fit :: "('a, 'w) env \<Rightarrow> ('a, 'w) trainer \<Rightarrow> 'w state \<Rightarrow> 'w state" where
  "Trainer_fit env t s = fit_loop env t [0..<nat (trainer_num_epochs t)] s"

text \<open>
  The call \<^verbatim>\<open>trainer.fit()\<close>: \<^verbatim>\<open>fit\<close> is on the whitelist, so a callback may stand
  in for the method of the class.
\<close>

definition call_fit :: "('a, 'w) env \<Rightarrow> ('a, 'w) trainer \<Rightarrow> 'w state \<Rightarrow> 'w state" where
  "call_fit env t s =
     (case overrides t ''fit'' of
        Some fn \<Rightarrow> snd (run (fn []) s)
      | None \<Rightarrow> Trainer_fit env t s)"

subsection \<open>What a trace should look like\<close>

text \<open>The events of one training batch, and of one epoch whose terminate check gave \<open>b\<close>.\<close>

definition batch_events :: "event list" where
  "batch_events =
     [E_zero_grad, E_preprocess, E_augmentations, E_model_call, E_criterion, E_backward,
      E_optimizer_step, E_losses_update]"

definition epoch_events :: "nat \<Rightarrow> nat \<times> bool \<Rightarrow> event list" where
  "epoch_events nb eb =
     E_fit_epoch (fst eb) # E_model_train # concat (replicate nb batch_events)
       @ [E_evaluate, E_checkpoint (fst eb), E_terminate (fst eb) (snd eb)]
       @ (if snd eb then [] else [E_scheduler_step])"

text \<open>The terminate checks of a trace: the epoch and whether the loop broke there.\<close>

fun terminate_calls :: "event list \<Rightarrow> (nat \<times> bool) list" where
  "terminate_calls [] = []"
| "terminate_calls (E_terminate e b # evs) = (e, b) # terminate_calls evs"
| "terminate_calls (ev # evs) = terminate_calls evs"

text \<open>
  The terminate checks a loop over the epochs \<open>es\<close> may make: one for each epoch in
  turn, stopping after the first that breaks.
\<close>

fun calls_ok :: "nat list \<Rightarrow> (nat \<times> bool) list \<Rightarrow> bool" where
  "calls_ok [] cs = (cs = [])"
| "calls_ok (e # es) [] = False"
| "calls_ok (e # es) (c # cs) = (fst c = e \<and> (if snd c then cs = [] else calls_ok es cs))"

text \<open>
  The events that mark the passes of an epoch: the call of \<^verbatim>\<open>fit_epoch\<close>, the forward
  pass of each training batch, and the call of \<^verbatim>\<open>evaluate\<close>.
\<close>

fun is_pass :: "event \<Rightarrow> bool" where
  "is_pass (E_fit_epoch e) = True"
| "is_pass E_model_call = True"
| "is_pass E_evaluate = True"
| "is_pass ev = False"

subsection \<open>The stage sequence as a function on the world\<close>

text \<open>
  The stage sequence of the specification, "preprocess, augment, forward, loss,
  backward, optimizer step, evaluate, checkpoint, terminate-check, schedule step", written
  as plain function composition on the world: no trace, no meter, no logger. These
  definitions follow the wording of the specification, not the source; the theorems below
  compare them with \<open>Trainer_fit_epoch\<close> and \<open>Trainer_fit\<close>, which are translated from
  the source.

  \<open>batch_to_loss\<close> is one batch up to its loss: gradients zeroed first, then
  preprocess, augmentations, the forward pass and the criterion, each fed the result of
  the one before. \<open>one_batch\<close> adds backward on that loss and the optimizer step.
  \<open>training_pass\<close> is \<^verbatim>\<open>model.train()\<close> and then the batches of the training loader
  in turn.
\<close>

definition batch_to_loss ::
  "('a, 'w) env \<Rightarrow> ('a, 'w) trainer \<Rightarrow> 'a pyval \<times> 'a pyval \<Rightarrow> 'w \<Rightarrow> 'a pyval \<times> 'w" where
  "batch_to_loss env t b w =
     (let w1 = optimizer_zero_grad env (optimizer t) w;
          (img, w2) = call_preprocess t (fst b) w1;
          (img', w3) = call_augmentations t img w2;
          (output, w4) = module_call env (model t) [img'] w3
      in module_call env (criterion t) [output, snd b] w4)"

definition one_batch ::
  "('a, 'w) env \<Rightarrow> ('a, 'w) trainer \<Rightarrow> 'a pyval \<times> 'a pyval \<Rightarrow> 'w \<Rightarrow> 'w" where
  "one_batch env t b w =
     (let (loss, w5) = batch_to_loss env t b w;
          w6 = accelerator_backward env (accelerator t) loss w5
      in optimizer_step env (optimizer t) w6)"

definition training_pass :: "('a, 'w) env \<Rightarrow> ('a, 'w) trainer \<Rightarrow> 'w \<Rightarrow> 'w" where
  "training_pass env t w =
     foldl (\<lambda>w b. one_batch env t b w) (module_train env (model t) w)
       (loader_batches env (train_dataloader t))"

text \<open>
  One epoch up to its terminate check: the training pass, \<^verbatim>\<open>evaluate\<close>, then
  \<^verbatim>\<open>checkpoint\<close> and \<^verbatim>\<open>terminate\<close>, both called with the model, the epoch and the
  statistics \<^verbatim>\<open>evaluate\<close> returned. The result is what \<^verbatim>\<open>terminate\<close> returned and the
  world after it. \<open>full_epoch\<close> is an epoch that goes on to its scheduler step.
\<close>

definition epoch_stages ::
  "('a, 'w) env \<Rightarrow> ('a, 'w) trainer \<Rightarrow> nat \<Rightarrow> 'w \<Rightarrow> 'a pyval \<times> 'w" where
  "epoch_stages env t e w =
     (let w1 = training_pass env t w;
          (valid_stats, w2) = call_evaluate t w1;
          (ignored, w3) = call_checkpoint t [model t, PyInt (int e), valid_stats] w2
      in call_terminate t [model t, PyInt (int e), valid_stats] w3)"

definition full_epoch :: "('a, 'w) env \<Rightarrow> ('a, 'w) trainer \<Rightarrow> nat \<Rightarrow> 'w \<Rightarrow> 'w" where
  "full_epoch env t e w = scheduler_step env (scheduler t) (snd (epoch_stages env t e w))"

text \<open>
  A run over the epochs \<open>es\<close>: it ends after the terminate stage of the first epoch
  at which that stage returns \<^verbatim>\<open>TrainerState.TERMINATE\<close>, and makes the scheduler step
  and goes on otherwise. \<open>epochs_world\<close> is the world at the end of the run;
  \<open>returned\<close> lists, for each epoch the run reaches, the value the terminate stage
  returned there. \<open>stops\<close> keeps of such a value whether it is \<^verbatim>\<open>TERMINATE\<close>.
\<close>

fun epochs_world :: "('a, 'w) env \<Rightarrow> ('a, 'w) trainer \<Rightarrow> nat list \<Rightarrow> 'w \<Rightarrow> 'w" where
  "epochs_world env t [] w = w"
| "epochs_world env t (e # es) w =
     (if fst (epoch_stages env t e w) = PyTrainerState TERMINATE
      then snd (epoch_stages env t e w)
      else epochs_world env t es (full_epoch env t e w))"

fun returned ::
  "('a, 'w) env \<Rightarrow> ('a, 'w) trainer \<Rightarrow> nat list \<Rightarrow> 'w \<Rightarrow> (nat \<times> 'a pyval) list" where
  "returned env t [] w = []"
| "returned env t (e # es) w =
     (e, fst (epoch_stages env t e w)) #
       (if fst (epoch_stages env t e w) = PyTrainerState TERMINATE then []
        else returned env t es (full_epoch env t e w))"

definition stops :: "nat \<times> 'a pyval \<Rightarrow> nat \<times> bool" where
  "stops r = (fst r, snd r = PyTrainerState TERMINATE)"

subsection \<open>What the constructor writes to the trace\<close>

text \<open>
  The calls of the constructor before it binds the callbacks, and the names bound by
  \<^verbatim>\<open>setattr\<close> in a trace.
\<close>

definition init_events :: "event list" where
  "init_events = [E_Accelerator, E_prepare_model, E_prepare_train_dataloader,
     E_prepare_valid_dataloader, E_criterion_to, E_prepare_optimizer]"

fun setattr_names :: "event list \<Rightarrow> string list" where
  "setattr_names [] = []"
| "setattr_names (E_setattr name # evs) = name # setattr_names evs"
| "setattr_names (ev # evs) = setattr_names evs"

subsection \<open>A concrete run\<close>

text \<open>
  A small world to run the definitions on: the objects are numbers, the world is an
  integer that the library calls count in. The loader yields two batches, the
  configuration asks for three epochs, and the \<^verbatim>\<open>terminate\<close> callback stops training at
  epoch 1. \<open>demo_env_missing\<close> is the same world without the accelerate library.
\<close>

fun demo_terminate :: "(nat, int) callable" where
  "demo_terminate [m, PyInt e, stats] w =
     (if e = 1 then PyTrainerState TERMINATE else PyNone, w)"
| "demo_terminate args w = (PyNone, w)"

definition demo_Accelerator :: "int \<Rightarrow> nat pyval \<times> int" where
  "demo_Accelerator w = (PyObj 0, w)"

definition demo_env :: "(nat, int) env" where
  "demo_env =
     \<lparr>Accelerator = Some demo_Accelerator,
      accelerator_prepare = (\<lambda>acc x w. (x, w)),
      accelerator_device = (\<lambda>acc. PyObj 1),
      accelerator_backward = (\<lambda>acc loss w. w + 1),
      module_to = (\<lambda>m dev w. (m, w)),
      module_train = (\<lambda>m w. w),
      module_call = (\<lambda>m args w. (PyObj 7, w)),
      optimizer_zero_grad = (\<lambda>opt w. w),
      optimizer_step = (\<lambda>opt w. w + 10),
      scheduler_step = (\<lambda>sch w. w + 100),
      loader_batches = (\<lambda>dl. [(PyObj 10, PyObj 11), (PyObj 12, PyObj 13)]),
      tensor_item = (\<lambda>x. 1 / 2),
      tensor_shape0 = (\<lambda>x. 4)\<rparr>"

definition demo_env_missing :: "(nat, int) env" where
  "demo_env_missing = demo_env\<lparr>Accelerator := None\<rparr>"

definition demo_config :: Configuration where
  "demo_config = \<lparr>num_epochs = 3\<rparr>"

definition demo_callbacks :: "(string \<times> (nat, int) callable) list" where
  "demo_callbacks = [(''terminate'', demo_terminate)]"

definition demo_bad_callbacks :: "(string \<times> (nat, int) callable) list" where
  "demo_bad_callbacks = [(''terminate'', demo_terminate), (''on_epoch_end'', demo_terminate),
     (''evaluate'', demo_terminate)]"

definition demo_state :: "int state" where
  "demo_state = \<lparr>world = 0, trace = [], logged = []\<rparr>"

definition demo_trainer :: "(nat, int) trainer" where
  "demo_trainer =
     \<lparr>accelerator = PyObj 0, model = PyObj 20, train_dataloader = PyObj 21,
      valid_dataloader = PyObj 22, criterion = PyObj 23, optimizer = PyObj 24,
      scheduler = PyObj 25, config = demo_config,
      overrides = [''terminate'' \<mapsto> demo_terminate], trainer_num_epochs = 3\<rparr>"

definition demo_default_trainer :: "(nat, int) trainer" where
  "demo_default_trainer = demo_trainer\<lparr>overrides := Map.empty\<rparr>"

definition demo_state_init :: "int state" where
  "demo_state_init =
     \<lparr>world = 0,
      trace = [E_Accelerator, E_prepare_model, E_prepare_train_dataloader,
               E_prepare_valid_dataloader, E_criterion_to, E_prepare_optimizer,
               E_setattr ''terminate'', E_getLogger],
      logged = []\<rparr>"

definition demo_updates :: "(rat \<times> nat) list" where
  "demo_updates = [(1 / 2, 4), (2, 2)]"

text \<open>
  The trainer built without callbacks, asked for a single epoch; and a world that is a
  pair of a parameter and a gradient, where \<^verbatim>\<open>zero_grad\<close> clears the gradient,
  \<^verbatim>\<open>backward\<close> adds to it and the optimizer step subtracts it from the parameter.
\<close>

definition demo_single_trainer :: "(nat, int) trainer" where
  "demo_single_trainer = demo_default_trainer\<lparr>trainer_num_epochs := 1\<rparr>"

definition demo_grad_env :: "(nat, int \<times> int) env" where
  "demo_grad_env =
     \<lparr>Accelerator = None,
      accelerator_prepare = (\<lambda>acc x w. (x, w)),
      accelerator_device = (\<lambda>acc. PyObj 1),
      accelerator_backward = (\<lambda>acc loss w. (fst w, snd w + 1)),
      module_to = (\<lambda>m dev w. (m, w)),
      module_train = (\<lambda>m w. w),
      module_call = (\<lambda>m args w. (PyObj 7, w)),
      optimizer_zero_grad = (\<lambda>opt w. (fst w, 0)),
      optimizer_step = (\<lambda>opt w. (fst w - snd w, snd w)),
      scheduler_step = (\<lambda>sch w. w),
      loader_batches = (\<lambda>dl. [(PyObj 10, PyObj 11), (PyObj 12, PyObj 13)]),
      tensor_item = (\<lambda>x. 1 / 2),
      tensor_shape0 = (\<lambda>x. 4)\<rparr>"

definition demo_grad_trainer :: "(nat, int \<times> int) trainer" where
  "demo_grad_trainer =
     \<lparr>accelerator = PyObj 0, model = PyObj 20, train_dataloader = PyObj 21,
      valid_dataloader = PyObj 22, criterion = PyObj 23, optimizer = PyObj 24,
      scheduler = PyObj 25, config = demo_config,
      overrides = Map.empty, trainer_num_epochs = 3\<rparr>"

section \<open>Properties\<close>

subsection \<open>Traces of the primitive steps\<close>

lemma trace_emit: "trace (emit e s) = trace s @ [e]"
  by (simp add: emit_def)

lemma trace_exec: "trace (exec f s) = trace s"
  by (simp add: exec_def)

lemma trace_run: "trace (snd (run f s)) = trace s"
  by (simp add: run_def)

lemma trace_logger_info: "trace (logger_info r s) = trace s"
  by (simp add: logger_info_def)

lemma trace_backward: "trace (Trainer_backward env t l s) = trace s @ [E_backward]"
  by (simp add: Trainer_backward_def trace_exec trace_emit)

lemma events_since_append: "trace s' = trace s @ evs \<Longrightarrow> events_since s s' = evs"
  by (simp add: events_since_def)

subsection \<open>The world after the primitive steps\<close>

lemma world_emit: "world (emit e s) = world s" by (simp add: emit_def)

lemma world_exec: "world (exec f s) = f (world s)" by (simp add: exec_def)

lemma world_run: "world (snd (run f s)) = snd (f (world s))" by (simp add: run_def)

lemma fst_run: "fst (run f s) = fst (f (world s))" by (simp add: run_def)

lemma world_logger_info: "world (logger_info r s) = world s" by (simp add: logger_info_def)

lemma world_backward:
  "world (Trainer_backward env t l s) = accelerator_backward env (accelerator t) l (world s)"
  by (simp add: Trainer_backward_def world_exec world_emit)

subsection \<open>The training pass\<close>

lemma trace_train_loop:
  "trace (snd (train_loop env t epoch bs losses s)) =
     trace s @ concat (replicate (length bs) batch_events)"
proof (induction bs arbitrary: losses s)
  case Nil
  show ?case by simp
next
  case (Cons b bs)
  obtain i src tgt where b: "b = (i, src, tgt)" by (cases b)
  show ?case
    unfolding b
    by (simp add: Let_def split_def Cons.IH trace_emit trace_exec trace_run
        trace_logger_info trace_backward batch_events_def)
qed

lemma trace_fit_epoch:
  "trace (Trainer_fit_epoch env t epoch s) =
     trace s @ E_model_train #
       concat (replicate (length (loader_batches env (train_dataloader t))) batch_events)"
  by (simp add: Trainer_fit_epoch_def Let_def trace_train_loop trace_exec trace_emit
      enumerate_eq_zip)

lemma world_train_loop:
  "world (snd (train_loop env t epoch bs losses s)) =
     foldl (\<lambda>w b. one_batch env t (snd b) w) (world s) bs"
proof (induction bs arbitrary: losses s)
  case Nil
  show ?case by simp
next
  case (Cons b bs)
  obtain i src tgt where b: "b = (i, src, tgt)" by (cases b)
  show ?case
    unfolding b
    by (simp add: Let_def split_def Cons.IH world_emit world_exec world_run fst_run
        world_logger_info world_backward one_batch_def batch_to_loss_def)
qed

lemma foldl_snd_enumerate:
  "foldl (\<lambda>w b. f (snd b) w) w (enumerate n xs) = foldl (\<lambda>w b. f b w) w xs"
  by (induction xs arbitrary: n w) simp_all

lemma world_fit_epoch:
  "world (Trainer_fit_epoch env t epoch s) = training_pass env t (world s)"
  by (simp add: Trainer_fit_epoch_def Let_def world_train_loop world_exec world_emit
      training_pass_def foldl_snd_enumerate)

lemma batch_to_loss_gradients:
  assumes "\<forall>w. g (optimizer_zero_grad env (optimizer t) w) = g0"
    and "\<forall>x w. g (snd (call_preprocess t x w)) = g w"
    and "\<forall>x w. g (snd (call_augmentations t x w)) = g w"
    and "\<forall>args w. g (snd (module_call env (model t) args w)) = g w"
    and "\<forall>args w. g (snd (module_call env (criterion t) args w)) = g w"
  shows "g (snd (batch_to_loss env t b w)) = g0"
  using assms by (simp add: batch_to_loss_def Let_def split_def)

text \<open>
  C10. In every batch iteration of \<^verbatim>\<open>fit_epoch\<close>, \<^verbatim>\<open>optimizer.zero_grad()\<close> is
  called before the forward pass, the loss, \<^verbatim>\<open>backward\<close> and \<^verbatim>\<open>optimizer.step()\<close> of
  that batch. On the world: the world after \<^verbatim>\<open>fit_epoch\<close> is \<^verbatim>\<open>model.train()\<close>
  followed by \<open>one_batch\<close> for each batch of the loader; \<open>one_batch\<close> is the optimizer
  step applied to backward applied to the loss and world of \<open>batch_to_loss\<close>; and
  \<open>batch_to_loss\<close> begins with \<^verbatim>\<open>zero_grad\<close> on the world the batch starts in. On the
  trace: the calls are written in the same order. So gradients do not carry over: for
  any view \<open>g\<close> of the world that \<^verbatim>\<open>zero_grad\<close> resets to \<open>g0\<close> and that preprocess,
  augmentations, the model and the criterion leave alone, backward starts from \<open>g0\<close> in
  every batch, whatever the batches before left in the world.
\<close>

theorem fit_epoch_zero_grad_first:
  "world (Trainer_fit_epoch env t epoch s) =
     foldl (\<lambda>w b. one_batch env t b w) (module_train env (model t) (world s))
       (loader_batches env (train_dataloader t))
   \<and> one_batch env t b w =
       optimizer_step env (optimizer t)
         (accelerator_backward env (accelerator t) (fst (batch_to_loss env t b w))
            (snd (batch_to_loss env t b w)))
   \<and> batch_to_loss env t b w =
       (let w1 = optimizer_zero_grad env (optimizer t) w;
            (img, w2) = call_preprocess t (fst b) w1;
            (img', w3) = call_augmentations t img w2;
            (output, w4) = module_call env (model t) [img'] w3
        in module_call env (criterion t) [output, snd b] w4)
   \<and> events_since s (Trainer_fit_epoch env t epoch s) =
       E_model_train #
         concat (replicate (length (loader_batches env (train_dataloader t)))
           [E_zero_grad, E_preprocess, E_augmentations, E_model_call, E_criterion, E_backward,
            E_optimizer_step, E_losses_update])
   \<and> ((\<forall>w. g (optimizer_zero_grad env (optimizer t) w) = g0)
       \<and> (\<forall>x w. g (snd (call_preprocess t x w)) = g w)
       \<and> (\<forall>x w. g (snd (call_augmentations t x w)) = g w)
       \<and> (\<forall>args w. g (snd (module_call env (model t) args w)) = g w)
       \<and> (\<forall>args w. g (snd (module_call env (criterion t) args w)) = g w)
      \<longrightarrow> g (snd (batch_to_loss env t b w)) = g0)"
proof -
  have a: "world (Trainer_fit_epoch env t epoch s) =
     foldl (\<lambda>w b. one_batch env t b w) (module_train env (model t) (world s))
       (loader_batches env (train_dataloader t))"
    by (simp add: world_fit_epoch training_pass_def)
  have b: "one_batch env t b w =
       optimizer_step env (optimizer t)
         (accelerator_backward env (accelerator t) (fst (batch_to_loss env t b w))
            (snd (batch_to_loss env t b w)))"
    by (simp add: one_batch_def Let_def split_def)
  have c: "batch_to_loss env t b w =
       (let w1 = optimizer_zero_grad env (optimizer t) w;
            (img, w2) = call_preprocess t (fst b) w1;
            (img', w3) = call_augmentations t img w2;
            (output, w4) = module_call env (model t) [img'] w3
        in module_call env (criterion t) [output, snd b] w4)"
    by (simp add: batch_to_loss_def)
  have d: "events_since s (Trainer_fit_epoch env t epoch s) =
     E_model_train #
       concat (replicate (length (loader_batches env (train_dataloader t)))
         [E_zero_grad, E_preprocess, E_augmentations, E_model_call, E_criterion, E_backward,
          E_optimizer_step, E_losses_update])"
    using events_since_append [of "Trainer_fit_epoch env t epoch s" s]
    by (simp add: trace_fit_epoch batch_events_def)
  have e: "(\<forall>w. g (optimizer_zero_grad env (optimizer t) w) = g0)
       \<and> (\<forall>x w. g (snd (call_preprocess t x w)) = g w)
       \<and> (\<forall>x w. g (snd (call_augmentations t x w)) = g w)
       \<and> (\<forall>args w. g (snd (module_call env (model t) args w)) = g w)
       \<and> (\<forall>args w. g (snd (module_call env (criterion t) args w)) = g w)
      \<longrightarrow> g (snd (batch_to_loss env t b w)) = g0"
    using batch_to_loss_gradients [of g env t g0 b w] by blast
  from a b c d e show ?thesis by blast
qed

text \<open>
  A world with a parameter and a gradient: a batch that starts with the gradient 7 left
  over reaches backward with the gradient 0, and its optimizer step uses the gradient 1
  of its own backward pass.
\<close>

theorem fit_epoch_zero_grad_first_witness:
  "(\<forall>w. snd (optimizer_zero_grad demo_grad_env (optimizer demo_grad_trainer) w) = 0)
   \<and> (\<forall>x w. snd (snd (call_preprocess demo_grad_trainer x w)) = snd w)
   \<and> (\<forall>x w. snd (snd (call_augmentations demo_grad_trainer x w)) = snd w)
   \<and> (\<forall>args w. snd (snd (module_call demo_grad_env (model demo_grad_trainer) args w)) = snd w)
   \<and> (\<forall>args w. snd (snd (module_call demo_grad_env (criterion demo_grad_trainer) args w))
         = snd w)
   \<and> snd (snd (batch_to_loss demo_grad_env demo_grad_trainer (PyObj 10, PyObj 11) (5, 7))) = 0
   \<and> one_batch demo_grad_env demo_grad_trainer (PyObj 10, PyObj 11) (5, 7) = (4, 1)"
proof -
  have h: "(\<forall>w. snd (optimizer_zero_grad demo_grad_env (optimizer demo_grad_trainer) w) = 0)
   \<and> (\<forall>x w. snd (snd (call_preprocess demo_grad_trainer x w)) = snd w)
   \<and> (\<forall>x w. snd (snd (call_augmentations demo_grad_trainer x w)) = snd w)
   \<and> (\<forall>args w. snd (snd (module_call demo_grad_env (model demo_grad_trainer) args w)) = snd w)
   \<and> (\<forall>args w. snd (snd (module_call demo_grad_env (criterion demo_grad_trainer) args w))
         = snd w)"
    by (simp add: demo_grad_env_def demo_grad_trainer_def call_preprocess_def
        call_augmentations_def Trainer_preprocess_def Trainer_augmentations_def)
  note c = fit_epoch_zero_grad_first [of demo_grad_env demo_grad_trainer 0
      "\<lparr>world = (5, 7), trace = [], logged = []\<rparr>" "(PyObj 10, PyObj 11)" "(5, 7)" snd 0]
  from c h have g: "snd (snd (batch_to_loss demo_grad_env demo_grad_trainer
      (PyObj 10, PyObj 11) (5, 7))) = 0" by blast
  from c have "one_batch demo_grad_env demo_grad_trainer (PyObj 10, PyObj 11) (5, 7) =
       optimizer_step demo_grad_env (optimizer demo_grad_trainer)
         (accelerator_backward demo_grad_env (accelerator demo_grad_trainer)
            (fst (batch_to_loss demo_grad_env demo_grad_trainer (PyObj 10, PyObj 11) (5, 7)))
            (snd (batch_to_loss demo_grad_env demo_grad_trainer (PyObj 10, PyObj 11) (5, 7))))"
    by blast
  then have o: "one_batch demo_grad_env demo_grad_trainer (PyObj 10, PyObj 11) (5, 7) = (4, 1)"
    by (simp add: batch_to_loss_def call_preprocess_def call_augmentations_def
        Trainer_preprocess_def Trainer_augmentations_def demo_grad_env_def
        demo_grad_trainer_def)
  from h g o show ?thesis by blast
qed

subsection \<open>The main loop\<close>

lemma terminate_calls_append:
  "terminate_calls (xs @ ys) = terminate_calls xs @ terminate_calls ys"
  by (induction xs rule: terminate_calls.induct) simp_all

lemma terminate_calls_batches:
  "terminate_calls (concat (replicate n batch_events)) = []"
  by (induction n) (simp_all add: terminate_calls_append batch_events_def)

lemma terminate_calls_epoch: "terminate_calls (epoch_events nb c) = [c]"
  by (simp add: epoch_events_def terminate_calls_append terminate_calls_batches)

lemma terminate_calls_epochs: "terminate_calls (concat (map (epoch_events nb) cs)) = cs"
  by (induction cs) (simp_all add: terminate_calls_append terminate_calls_epoch)

lemma fit_loop_refines:
  "world (fit_loop env t es s) = epochs_world env t es (world s)
   \<and> trace (fit_loop env t es s) =
       trace s @ concat (map (\<lambda>r. epoch_events (length (loader_batches env (train_dataloader t)))
                                  (stops r)) (returned env t es (world s)))"
proof (induction es arbitrary: s)
  case Nil
  show ?case by simp
next
  case (Cons e es)
  let ?nb = "length (loader_batches env (train_dataloader t))"
  define s1 where "s1 = Trainer_fit_epoch env t e (emit (E_fit_epoch e) s)"
  define r2 where "r2 = run (call_evaluate t) (emit E_evaluate s1)"
  define r3 where "r3 = run (call_checkpoint t [model t, PyInt (int e), fst r2])
                          (emit (E_checkpoint e) (snd r2))"
  define r4 where "r4 = run (call_terminate t [model t, PyInt (int e), fst r2]) (snd r3)"
  define b where "b = (fst r4 = PyTrainerState TERMINATE)"
  define s5 where "s5 = emit (E_terminate e b) (snd r4)"
  define s6 where "s6 = exec (scheduler_step env (scheduler t)) (emit E_scheduler_step s5)"
  have step: "fit_loop env t (e # es) s = (if b then s5 else fit_loop env t es s6)"
    by (simp add: Let_def split_def s1_def r2_def r3_def r4_def b_def s5_def s6_def)
  have v: "fst r4 = fst (epoch_stages env t e (world s))"
    and w5: "world s5 = snd (epoch_stages env t e (world s))"
    by (simp_all add: s5_def r4_def r3_def r2_def s1_def epoch_stages_def Let_def split_def
        world_emit world_run fst_run world_fit_epoch)
  have w6: "world s6 = full_epoch env t e (world s)"
    by (simp add: s6_def world_exec world_emit w5 full_epoch_def)
  have tr5: "trace s5 =
      trace s @ E_fit_epoch e # E_model_train # concat (replicate ?nb batch_events)
        @ [E_evaluate, E_checkpoint e, E_terminate e b]"
    by (simp add: s5_def r4_def r3_def r2_def s1_def trace_emit trace_run trace_fit_epoch)
  show ?case
  proof (cases b)
    case True
    then show ?thesis
      using v by (simp add: step tr5 w5 b_def epoch_events_def stops_def del: fit_loop.simps)
  next
    case False
    have tr6: "trace s6 = trace s @ epoch_events ?nb (e, False)"
      using False by (simp add: s6_def trace_exec trace_emit tr5 epoch_events_def)
    from False v have nv: "fst (epoch_stages env t e (world s)) \<noteq> PyTrainerState TERMINATE"
      by (simp add: b_def)
    show ?thesis
      using False nv Cons.IH [of s6]
      by (simp add: step tr6 w6 stops_def del: fit_loop.simps)
  qed
qed

lemma calls_ok_returned: "calls_ok es (map stops (returned env t es w))"
  by (induction es arbitrary: w) (simp_all add: stops_def)

lemma terminate_calls_returned:
  "terminate_calls (concat (map (\<lambda>r. epoch_events nb (stops r)) rs)) = map stops rs"
  by (induction rs) (simp_all add: terminate_calls_append terminate_calls_epoch)

text \<open>
  C1. \<^verbatim>\<open>Trainer.fit\<close> runs the stages in the fixed order and nothing outside it. On
  the world: the world after \<^verbatim>\<open>fit\<close> is \<open>epochs_world\<close> over \<^verbatim>\<open>range(num_epochs)\<close>,
  that is, for each epoch the training pass (per batch: preprocess, augmentations,
  forward pass, criterion, backward, optimizer step), then evaluate, checkpoint and the
  terminate check, then the scheduler step unless the terminate stage returned
  \<^verbatim>\<open>TERMINATE\<close>. On the trace: the events are the blocks of these epochs in the same
  order, one for each value the terminate stage returned, and nothing else.
\<close>

theorem fit_stage_order:
  "world (Trainer_fit env t s) =
     epochs_world env t [0..<nat (trainer_num_epochs t)] (world s)
   \<and> events_since s (Trainer_fit env t s) =
       concat (map (\<lambda>r. epoch_events (length (loader_batches env (train_dataloader t)))
                           (fst r, snd r = PyTrainerState TERMINATE))
                (returned env t [0..<nat (trainer_num_epochs t)] (world s)))"
proof -
  from fit_loop_refines [of env t "[0..<nat (trainer_num_epochs t)]" s]
  have w: "world (Trainer_fit env t s) =
      epochs_world env t [0..<nat (trainer_num_epochs t)] (world s)"
    and tr: "trace (Trainer_fit env t s) = trace s @
       concat (map (\<lambda>r. epoch_events (length (loader_batches env (train_dataloader t)))
                           (stops r))
                (returned env t [0..<nat (trainer_num_epochs t)] (world s)))"
    unfolding Trainer_fit_def by simp_all
  from events_since_append [OF tr] w show ?thesis by (simp add: stops_def)
qed

subsection \<open>The concrete run\<close>

lemma demo_init:
  "Trainer_init demo_env (PyObj 20) (PyObj 21) (PyObj 22) (PyObj 23) (PyObj 24) (PyObj 25)
     demo_config demo_callbacks demo_state = (Inr demo_trainer, demo_state_init)"
  by (simp add: Trainer_init_def demo_env_def demo_callbacks_def demo_state_def
      demo_trainer_def demo_state_init_def demo_config_def run_def emit_def demo_Accelerator_def
      callbacks_whitelist_def)

lemma demo_init_default:
  "Trainer_init demo_env (PyObj 20) (PyObj 21) (PyObj 22) (PyObj 23) (PyObj 24) (PyObj 25)
     demo_config [] demo_state =
   (Inr demo_default_trainer,
    demo_state\<lparr>trace := [E_Accelerator, E_prepare_model, E_prepare_train_dataloader,
               E_prepare_valid_dataloader, E_criterion_to, E_prepare_optimizer, E_getLogger]\<rparr>)"
  by (simp add: Trainer_init_def demo_env_def demo_state_def demo_default_trainer_def
      demo_trainer_def demo_config_def run_def emit_def demo_Accelerator_def)

lemma demo_batches_length: "length (loader_batches demo_env dl) = 2"
  by (simp add: demo_env_def)

lemma demo_epoch_stages:
  "epoch_stages demo_env demo_trainer e w =
     (if e = 1 then PyTrainerState TERMINATE else PyNone, w + 22)"
  by (simp add: epoch_stages_def training_pass_def one_batch_def batch_to_loss_def
      call_preprocess_def call_augmentations_def call_evaluate_def call_checkpoint_def
      call_terminate_def Trainer_preprocess_def Trainer_augmentations_def
      Trainer_evaluate_def Trainer_checkpoint_def demo_env_def demo_trainer_def)

lemma demo_full_epoch: "full_epoch demo_env demo_trainer e w = w + 122"
  by (simp add: full_epoch_def demo_epoch_stages) (simp add: demo_env_def)

lemma demo_returned:
  "returned demo_env demo_trainer [0..<nat (trainer_num_epochs demo_trainer)] (world demo_state)
     = [(0, PyNone), (1, PyTrainerState TERMINATE)]"
proof -
  have n: "[0..<nat (trainer_num_epochs demo_trainer)] = [0, 1, 2]"
    by (simp add: demo_trainer_def upt_rec)
  show ?thesis unfolding n by (simp add: demo_epoch_stages demo_full_epoch)
qed

lemma demo_single_epoch_stages:
  "epoch_stages demo_env demo_single_trainer e w = (PyNone, w + 22)"
  by (simp add: epoch_stages_def training_pass_def one_batch_def batch_to_loss_def
      call_preprocess_def call_augmentations_def call_evaluate_def call_checkpoint_def
      call_terminate_def Trainer_preprocess_def Trainer_augmentations_def
      Trainer_evaluate_def Trainer_checkpoint_def Trainer_terminate_def demo_env_def
      demo_trainer_def demo_default_trainer_def demo_single_trainer_def)

subsection \<open>Epochs, early termination and the scheduler\<close>

lemma calls_ok_upt_Cons:
  "calls_ok [k..<n] (c # cs) \<Longrightarrow>
     k < n \<and> fst c = k \<and> (if snd c then cs = [] else calls_ok [Suc k..<n] cs)"
  by (cases "k < n") (simp_all add: upt_rec [of k n])

lemma calls_ok_upt_fst:
  "calls_ok [k..<n] cs \<Longrightarrow> map fst cs = [k..<k + length cs] \<and> length cs \<le> n - k"
proof (induction cs arbitrary: k)
  case Nil
  then show ?case by simp
next
  case (Cons c cs)
  from calls_ok_upt_Cons [OF Cons.prems]
  have kn: "k < n" and c: "fst c = k"
    and rest: "if snd c then cs = [] else calls_ok [Suc k..<n] cs" by simp_all
  show ?case
  proof (cases "snd c")
    case True
    with rest kn c show ?thesis by (simp add: upt_rec [of k "Suc k"])
  next
    case False
    with rest have "calls_ok [Suc k..<n] cs" by simp
    from Cons.IH [OF this] have ih: "map fst cs = [Suc k..<Suc k + length cs]"
      and len: "length cs \<le> n - Suc k" by simp_all
    have "[k..<k + length (c # cs)] = k # [Suc k..<Suc k + length cs]"
      by (simp add: upt_conv_Cons del: upt_Suc)
    with ih len c kn show ?thesis by simp
  qed
qed

lemma calls_ok_upt_complete:
  "calls_ok [k..<n] cs \<Longrightarrow> \<not> list_ex snd cs \<Longrightarrow> length cs = n - k"
proof (induction cs arbitrary: k)
  case Nil
  then show ?case by (cases "k < n") (simp_all add: upt_rec [of k n])
next
  case (Cons c cs)
  from calls_ok_upt_Cons [OF Cons.prems(1)] Cons.prems(2)
  have kn: "k < n" and ok: "calls_ok [Suc k..<n] cs" and nb: "\<not> list_ex snd cs"
    by simp_all
  from Cons.IH [OF ok nb] kn show ?case by auto
qed

lemma filter_pass_batches:
  "filter is_pass (concat (replicate n batch_events)) = replicate n E_model_call"
  by (induction n) (simp_all add: batch_events_def)

lemma filter_pass_epoch:
  "filter is_pass (epoch_events nb c) = E_fit_epoch (fst c) # replicate nb E_model_call @ [E_evaluate]"
  by (simp add: epoch_events_def filter_pass_batches)

lemma filter_pass_epochs:
  "filter is_pass (concat (map (epoch_events nb) cs)) =
     concat (map (\<lambda>c. E_fit_epoch (fst c) # replicate nb E_model_call @ [E_evaluate]) cs)"
  by (induction cs) (simp_all add: filter_pass_epoch)

lemma init_num_epochs:
  "Trainer_init env m tr va cr opt sch cfg cbs s0 = (Inr t, s1) \<Longrightarrow>
     trainer_num_epochs t = num_epochs cfg"
  by (auto simp: Trainer_init_def Let_def split_def split: option.splits sum.splits prod.splits)

lemma epochs_world_no_stop:
  "\<not> list_ex (\<lambda>r. snd r = PyTrainerState TERMINATE) (returned env t [k..<n] w) \<Longrightarrow>
     epochs_world env t [k..<n] w = fold (full_epoch env t) [k..<n] w"
proof (induction "n - k" arbitrary: k w)
  case 0
  then show ?case by simp
next
  case (Suc d)
  then have kn: "k < n" by simp
  then have upt: "[k..<n] = k # [Suc k..<n]" by (simp add: upt_rec)
  from Suc.prems have nv: "fst (epoch_stages env t k w) \<noteq> PyTrainerState TERMINATE"
    and rest: "\<not> list_ex (\<lambda>r. snd r = PyTrainerState TERMINATE)
                 (returned env t [Suc k..<n] (full_epoch env t k w))"
    unfolding upt by (auto split: if_splits)
  from Suc.hyps(2) have "d = n - Suc k" by simp
  from Suc.hyps(1) [OF this rest] nv show ?case
    unfolding upt by simp
qed

lemma epochs_world_stop:
  "(e, PyTrainerState TERMINATE) \<in> set (returned env t [k..<n] w) \<Longrightarrow>
     k \<le> e \<and> epochs_world env t [k..<n] w =
       snd (epoch_stages env t e (fold (full_epoch env t) [k..<e] w))"
proof (induction "n - k" arbitrary: k w)
  case 0
  then show ?case by simp
next
  case (Suc d)
  then have kn: "k < n" by simp
  then have upt: "[k..<n] = k # [Suc k..<n]" by (simp add: upt_rec)
  show ?case
  proof (cases "fst (epoch_stages env t k w) = PyTrainerState TERMINATE")
    case True
    with Suc.prems have "e = k" unfolding upt by simp
    with True show ?thesis unfolding upt by simp
  next
    case False
    with Suc.prems have mem: "(e, PyTrainerState TERMINATE)
        \<in> set (returned env t [Suc k..<n] (full_epoch env t k w))"
      unfolding upt by auto
    from Suc.hyps(2) have "d = n - Suc k" by simp
    from Suc.hyps(1) [OF this mem]
    have le: "Suc k \<le> e"
      and ih: "epochs_world env t [Suc k..<n] (full_epoch env t k w) =
        snd (epoch_stages env t e (fold (full_epoch env t) [Suc k..<e] (full_epoch env t k w)))"
      by simp_all
    from le have "[k..<e] = k # [Suc k..<e]" by (simp add: upt_rec)
    with False ih le show ?thesis unfolding upt by simp
  qed
qed

lemma calls_ok_split:
  "calls_ok [k..<n] cs \<Longrightarrow> cs = pre @ (e, b) # post \<Longrightarrow>
     (if b then post = []
      else if Suc e < n then map fst (take 1 post) = [Suc e]
      else post = [])"
proof (induction cs arbitrary: k pre)
  case Nil
  then show ?case by simp
next
  case (Cons c cs)
  from calls_ok_upt_Cons [OF Cons.prems(1)]
  have kn: "k < n" and c: "fst c = k"
    and rest: "if snd c then cs = [] else calls_ok [Suc k..<n] cs" by simp_all
  show ?case
  proof (cases pre)
    case Nil
    with Cons.prems(2) have ceq: "c = (e, b)" and post: "cs = post" by simp_all
    show ?thesis
    proof (cases b)
      case True
      with rest ceq post show ?thesis by simp
    next
      case False
      with rest ceq have ok: "calls_ok [Suc k..<n] cs" by simp
      from c ceq have ek: "e = k" by simp
      show ?thesis
      proof (cases cs)
        case Nil
        with ok have "\<not> Suc k < n" by (cases "Suc k < n") (simp_all add: upt_rec [of "Suc k" n])
        with False Nil post ek show ?thesis by simp
      next
        case (Cons d ds)
        with calls_ok_upt_Cons [of "Suc k" n d ds] ok
        have "Suc k < n" "fst d = Suc k" by simp_all
        with False Cons post ek show ?thesis by simp
      qed
    qed
  next
    case (Cons p pre')
    with Cons.prems(2) have cs: "cs = pre' @ (e, b) # post" by simp
    then have "cs \<noteq> []" by simp
    with rest have "calls_ok [Suc k..<n] cs" by (cases "snd c") simp_all
    from Cons.IH [OF this cs] show ?thesis .
  qed
qed

lemma returned_split:
  assumes "returned env t [k..<n] w = pre @ (e, v) # post"
  shows "if v = PyTrainerState TERMINATE then post = []
         else if Suc e < n then map fst (take 1 post) = [Suc e]
         else post = []"
proof -
  have "map stops (returned env t [k..<n] w) =
          map stops pre @ (e, v = PyTrainerState TERMINATE) # map stops post"
    unfolding assms by (simp add: stops_def)
  from calls_ok_split [OF calls_ok_returned this]
  show ?thesis by (simp add: take_map stops_def comp_def split: if_splits)
qed

text \<open>
  C2. A trainer built from a configuration \<open>cfg\<close> runs the epochs \<open>0, 1, ...\<close> in
  turn, at most \<open>num_epochs cfg\<close> of them, and all of them unless the terminate stage
  returns \<^verbatim>\<open>TERMINATE\<close> at one of them (\<open>rs\<close> lists the values it returned). Each epoch
  is one training pass over the training loader followed by one call of
  \<^verbatim>\<open>evaluate\<close>: the world after \<^verbatim>\<open>fit\<close> is \<open>epochs_world\<close> over these epochs, which is
  \<open>num_epochs cfg\<close> full epochs when no terminate stage returned \<^verbatim>\<open>TERMINATE\<close>, and the
  trace shows for each epoch run the call of \<^verbatim>\<open>fit_epoch\<close>, one forward pass for each
  batch, and the call of \<^verbatim>\<open>evaluate\<close>.
\<close>

theorem fit_runs_num_epochs:
  assumes "Trainer_init env m tr va cr opt sch cfg cbs s0 = (Inr t, s1)"
  shows "(let n = nat (num_epochs cfg);
              rs = returned env t [0..<n] (world s);
              evs = events_since s (Trainer_fit env t s);
              nb = length (loader_batches env (train_dataloader t))
          in map fst rs = [0..<length rs]
           \<and> length rs \<le> n
           \<and> (list_ex (\<lambda>r. snd r = PyTrainerState TERMINATE) rs \<or> length rs = n)
           \<and> filter is_pass evs =
               concat (map (\<lambda>r. E_fit_epoch (fst r) # replicate nb E_model_call @ [E_evaluate]) rs)
           \<and> world (Trainer_fit env t s) = epochs_world env t [0..<n] (world s)
           \<and> (list_ex (\<lambda>r. snd r = PyTrainerState TERMINATE) rs
               \<or> world (Trainer_fit env t s) = fold (full_epoch env t) [0..<n] (world s)))"
proof -
  let ?n = "nat (num_epochs cfg)"
  let ?rs = "returned env t [0..<?n] (world s)"
  let ?evs = "events_since s (Trainer_fit env t s)"
  let ?nb = "length (loader_batches env (train_dataloader t))"
  have n: "trainer_num_epochs t = num_epochs cfg"
    by (rule init_num_epochs [OF assms])
  from fit_loop_refines [of env t "[0..<?n]" s]
  have w: "world (Trainer_fit env t s) = epochs_world env t [0..<?n] (world s)"
    and tr: "trace (Trainer_fit env t s) = trace s @
       concat (map (\<lambda>r. epoch_events ?nb (stops r)) ?rs)"
    unfolding Trainer_fit_def n by simp_all
  have ev: "?evs = concat (map (epoch_events ?nb) (map stops ?rs))"
    using events_since_append [OF tr] by (simp add: comp_def)
  have ok: "calls_ok [0..<?n] (map stops ?rs)" by (rule calls_ok_returned)
  have ex: "list_ex snd (map stops ?rs) = list_ex (\<lambda>r. snd r = PyTrainerState TERMINATE) ?rs"
    by (simp add: list_ex_iff stops_def)
  have a: "map fst ?rs = [0..<length ?rs]" "length ?rs \<le> ?n"
    using calls_ok_upt_fst [OF ok] by (simp_all add: stops_def comp_def)
  have b: "list_ex (\<lambda>r. snd r = PyTrainerState TERMINATE) ?rs \<or> length ?rs = ?n"
    using calls_ok_upt_complete [OF ok] unfolding ex by auto
  have c: "filter is_pass ?evs =
       concat (map (\<lambda>r. E_fit_epoch (fst r) # replicate ?nb E_model_call @ [E_evaluate]) ?rs)"
    unfolding ev filter_pass_epochs by (simp add: comp_def stops_def)
  have d: "list_ex (\<lambda>r. snd r = PyTrainerState TERMINATE) ?rs
       \<or> world (Trainer_fit env t s) = fold (full_epoch env t) [0..<?n] (world s)"
    using epochs_world_no_stop [of env t 0 ?n "world s"] w by auto
  from a b c d w show ?thesis by (simp add: Let_def)
qed

text \<open>
  The concrete run: the trainer is built from the configuration, and the terminate
  stage returns \<^verbatim>\<open>TERMINATE\<close> at epoch 1 of 3.
\<close>

theorem fit_runs_num_epochs_witness:
  "Trainer_init demo_env (PyObj 20) (PyObj 21) (PyObj 22) (PyObj 23) (PyObj 24) (PyObj 25)
     demo_config demo_callbacks demo_state = (Inr demo_trainer, demo_state_init)
   \<and> (let n = nat (num_epochs demo_config);
           rs = returned demo_env demo_trainer [0..<n] (world demo_state);
           evs = events_since demo_state (Trainer_fit demo_env demo_trainer demo_state);
           nb = length (loader_batches demo_env (train_dataloader demo_trainer))
       in map fst rs = [0..<length rs]
        \<and> length rs \<le> n
        \<and> (list_ex (\<lambda>r. snd r = PyTrainerState TERMINATE) rs \<or> length rs = n)
        \<and> filter is_pass evs =
            concat (map (\<lambda>r. E_fit_epoch (fst r) # replicate nb E_model_call @ [E_evaluate]) rs)
        \<and> world (Trainer_fit demo_env demo_trainer demo_state) =
            epochs_world demo_env demo_trainer [0..<n] (world demo_state)
        \<and> (list_ex (\<lambda>r. snd r = PyTrainerState TERMINATE) rs
            \<or> world (Trainer_fit demo_env demo_trainer demo_state) =
                 fold (full_epoch demo_env demo_trainer) [0..<n] (world demo_state)))"
  using demo_init fit_runs_num_epochs [OF demo_init, of demo_state] by (rule conjI)

text \<open>
  C4, as stated, is false at the last epoch: with a single epoch and the default
  \<^verbatim>\<open>terminate\<close>, the terminate stage returns \<^verbatim>\<open>None\<close> at epoch 0 and \<^verbatim>\<open>fit\<close> runs no
  further epoch all the same, because \<^verbatim>\<open>range(num_epochs)\<close> is used up.
\<close>

theorem fit_stops_counterexample:
  "trainer_num_epochs demo_single_trainer = 1
   \<and> returned demo_env demo_single_trainer
       [0..<nat (trainer_num_epochs demo_single_trainer)] (world demo_state) = [(0, PyNone)]
   \<and> terminate_calls (events_since demo_state
         (Trainer_fit demo_env demo_single_trainer demo_state)) = [(0, False)]"
proof -
  have n: "trainer_num_epochs demo_single_trainer = 1"
    by (simp add: demo_single_trainer_def)
  have r: "returned demo_env demo_single_trainer
       [0..<nat (trainer_num_epochs demo_single_trainer)] (world demo_state) = [(0, PyNone)]"
    unfolding n by (simp add: demo_single_epoch_stages)
  from fit_loop_refines [of demo_env demo_single_trainer
      "[0..<nat (trainer_num_epochs demo_single_trainer)]" demo_state]
  have "trace (Trainer_fit demo_env demo_single_trainer demo_state) =
      trace demo_state @ epoch_events 2 (0, False)"
    unfolding Trainer_fit_def r by (simp add: stops_def demo_batches_length)
  from events_since_append [OF this]
  have "terminate_calls (events_since demo_state
         (Trainer_fit demo_env demo_single_trainer demo_state)) = [(0, False)]"
    by (simp add: terminate_calls_epoch)
  with n r show ?thesis by simp
qed

text \<open>
  C4, amended. At any epoch \<open>e\<close> of the loop, with the epochs \<open>es\<close> still to come:
  if the terminate stage returns \<^verbatim>\<open>TrainerState.TERMINATE\<close> the run ends in the world
  that stage left, with no scheduler step and no further epoch; if it returns any other
  value, the scheduler step is made and the loop goes on with \<open>es\<close>. So, over a whole
  run, the flags of the terminate events are exactly "the returned value is
  \<^verbatim>\<open>TERMINATE\<close>", nothing is run after an epoch that returned \<^verbatim>\<open>TERMINATE\<close>, and an
  epoch \<open>k\<close> that returned another value is followed by epoch \<open>k + 1\<close> when
  \<open>k + 1 < num_epochs\<close>; the last epoch of the range is followed by none, whatever was
  returned.
\<close>

theorem fit_stops_on_terminate:
  "world (fit_loop env t (e # es) s) =
     (if fst (epoch_stages env t e (world s)) = PyTrainerState TERMINATE
      then snd (epoch_stages env t e (world s))
      else epochs_world env t es
             (scheduler_step env (scheduler t) (snd (epoch_stages env t e (world s)))))
   \<and> terminate_calls (events_since s (Trainer_fit env t s)) =
       map (\<lambda>r. (fst r, snd r = PyTrainerState TERMINATE))
         (returned env t [0..<nat (trainer_num_epochs t)] (world s))
   \<and> (returned env t [0..<nat (trainer_num_epochs t)] (world s) = pre @ (k, v) # post \<longrightarrow>
        (if v = PyTrainerState TERMINATE then post = []
         else if int k + 1 < trainer_num_epochs t then map fst (take 1 post) = [k + 1]
         else post = []))"
proof -
  have a: "world (fit_loop env t (e # es) s) =
     (if fst (epoch_stages env t e (world s)) = PyTrainerState TERMINATE
      then snd (epoch_stages env t e (world s))
      else epochs_world env t es
             (scheduler_step env (scheduler t) (snd (epoch_stages env t e (world s)))))"
    using fit_loop_refines [of env t "e # es" s]
    by (simp add: full_epoch_def del: fit_loop.simps)
  from fit_loop_refines [of env t "[0..<nat (trainer_num_epochs t)]" s]
  have tr: "trace (Trainer_fit env t s) = trace s @
       concat (map (\<lambda>r. epoch_events (length (loader_batches env (train_dataloader t)))
                           (stops r))
                (returned env t [0..<nat (trainer_num_epochs t)] (world s)))"
    unfolding Trainer_fit_def by simp
  have b: "terminate_calls (events_since s (Trainer_fit env t s)) =
       map (\<lambda>r. (fst r, snd r = PyTrainerState TERMINATE))
         (returned env t [0..<nat (trainer_num_epochs t)] (world s))"
    unfolding events_since_append [OF tr] terminate_calls_returned
    by (simp add: stops_def)
  have c: "returned env t [0..<nat (trainer_num_epochs t)] (world s) = pre @ (k, v) # post \<longrightarrow>
        (if v = PyTrainerState TERMINATE then post = []
         else if int k + 1 < trainer_num_epochs t then map fst (take 1 post) = [k + 1]
         else post = [])"
  proof
    assume "returned env t [0..<nat (trainer_num_epochs t)] (world s) = pre @ (k, v) # post"
    from returned_split [OF this]
    have "if v = PyTrainerState TERMINATE then post = []
         else if Suc k < nat (trainer_num_epochs t) then map fst (take 1 post) = [Suc k]
         else post = []" .
    moreover have "Suc k < nat (trainer_num_epochs t) \<longleftrightarrow> int k + 1 < trainer_num_epochs t"
      by auto
    ultimately show "if v = PyTrainerState TERMINATE then post = []
         else if int k + 1 < trainer_num_epochs t then map fst (take 1 post) = [k + 1]
         else post = []" by (auto split: if_splits)
  qed
  from a b c show ?thesis by blast
qed

text \<open>
  The concrete run: epoch 0 returns \<^verbatim>\<open>None\<close> and is followed by epoch 1, which
  returns \<^verbatim>\<open>TERMINATE\<close> and ends the run.
\<close>

theorem fit_stops_on_terminate_witness:
  "returned demo_env demo_trainer [0..<nat (trainer_num_epochs demo_trainer)] (world demo_state)
     = [] @ (0, PyNone) # [(1, PyTrainerState TERMINATE)]
   \<and> map fst (take 1 [(1::nat, PyTrainerState TERMINATE :: nat pyval)]) = [0 + 1]
   \<and> returned demo_env demo_trainer [0..<nat (trainer_num_epochs demo_trainer)] (world demo_state)
     = [(0, PyNone)] @ (1, PyTrainerState TERMINATE) # []
   \<and> world (fit_loop demo_env demo_trainer [0, 1, 2] demo_state) = 144
   \<and> world (fit_loop demo_env demo_trainer [1, 2] demo_state) = 22"
proof -
  have a: "returned demo_env demo_trainer [0..<nat (trainer_num_epochs demo_trainer)]
      (world demo_state) = [] @ (0, PyNone) # [(1, PyTrainerState TERMINATE)]"
    by (simp add: demo_returned)
  have b: "returned demo_env demo_trainer [0..<nat (trainer_num_epochs demo_trainer)]
      (world demo_state) = [(0, PyNone)] @ (1, PyTrainerState TERMINATE) # []"
    by (simp add: demo_returned)
  from a fit_stops_on_terminate [of demo_env demo_trainer 0 "[1, 2]" demo_state "[]" 0 PyNone
      "[(1, PyTrainerState TERMINATE)]"]
  have c: "map fst (take 1 [(1::nat, PyTrainerState TERMINATE :: nat pyval)]) = [0 + 1]"
    and d: "world (fit_loop demo_env demo_trainer [0, 1, 2] demo_state) = 144"
    by (simp_all add: demo_epoch_stages demo_full_epoch demo_state_def del: fit_loop.simps)
       (simp_all add: demo_env_def)
  from b fit_stops_on_terminate [of demo_env demo_trainer 1 "[2]" demo_state "[(0, PyNone)]" 1
      "PyTrainerState TERMINATE" "[]"]
  have e: "world (fit_loop demo_env demo_trainer [1, 2] demo_state) = 22"
    by (simp add: demo_epoch_stages demo_state_def del: fit_loop.simps)
  from a b c d e show ?thesis by blast
qed

lemma count_sched_batches: "count_list (concat (replicate n batch_events)) E_scheduler_step = 0"
  by (induction n) (simp_all add: batch_events_def)

lemma count_sched_epoch:
  "count_list (epoch_events nb c) E_scheduler_step = (if snd c then 0 else 1)"
  by (simp add: epoch_events_def count_sched_batches)

lemma count_sched_epochs:
  "count_list (concat (map (epoch_events nb) cs)) E_scheduler_step
     = length (filter (\<lambda>c. \<not> snd c) cs)"
  by (induction cs) (simp_all add: count_sched_epoch)

lemma calls_ok_upt_break:
  "calls_ok [k..<n] cs \<Longrightarrow> (e, True) \<in> set cs \<Longrightarrow> length (filter (\<lambda>c. \<not> snd c) cs) = e - k"
proof (induction cs arbitrary: k)
  case Nil
  then show ?case by simp
next
  case (Cons c cs)
  from Cons.prems(1) have kn: "k < n"
    by (cases "k < n") simp_all
  then have upt: "[k..<n] = k # [Suc k..<n]" by (simp add: upt_rec)
  from Cons.prems(1) have c: "fst c = k" and rest: "if snd c then cs = [] else calls_ok [Suc k..<n] cs"
    unfolding upt by simp_all
  show ?case
  proof (cases "snd c")
    case True
    with rest have "cs = []" by simp
    with Cons.prems(2) True c show ?thesis by (cases c) auto
  next
    case False
    with rest have ok: "calls_ok [Suc k..<n] cs" by simp
    from False Cons.prems(2) have mem: "(e, True) \<in> set cs" by (cases c) auto
    from Cons.IH [OF ok mem] have ih: "length (filter (\<lambda>c. \<not> snd c) cs) = e - Suc k" .
    have "Suc k \<le> e" using ok mem
    proof (induction cs arbitrary: k)
      case Nil then show ?case by simp
    next
      case (Cons d ds)
      from Cons.prems(1) have "Suc k < n" by (cases "Suc k < n") simp_all
      then have u: "[Suc k..<n] = Suc k # [Suc (Suc k)..<n]" by (simp add: upt_rec)
      from Cons.prems(1) have d: "fst d = Suc k" and r: "if snd d then ds = [] else calls_ok [Suc (Suc k)..<n] ds"
        unfolding u by simp_all
      show ?case
      proof (cases "(e, True) = d")
        case True with d show ?thesis by auto
      next
        case False
        with Cons.prems(2) have m: "(e, True) \<in> set ds" by auto
        then have "ds \<noteq> []" by auto
        with r have "calls_ok [Suc (Suc k)..<n] ds" by (cases "snd d") simp_all
        from Cons.IH [OF this m] show ?thesis by simp
      qed
    qed
    with ih False show ?thesis by simp
  qed
qed

text \<open>
  C9. \<^verbatim>\<open>scheduler.step()\<close> is called once for each epoch at which the terminate stage
  returns a value other than \<^verbatim>\<open>TERMINATE\<close>, and not at the epoch at which it returns
  \<^verbatim>\<open>TERMINATE\<close>. On the trace: the number of scheduler steps is the number of such
  returned values, and it is \<open>e\<close> in a run that \<^verbatim>\<open>TERMINATE\<close> ended at epoch \<open>e\<close>. On the
  world: that run is \<open>e\<close> full epochs, each with its scheduler step, followed by the
  stages of epoch \<open>e\<close> without one; a run that no \<^verbatim>\<open>TERMINATE\<close> ended is \<open>num_epochs\<close>
  full epochs.
\<close>

theorem fit_scheduler_steps:
  "count_list (events_since s (Trainer_fit env t s)) E_scheduler_step =
     length (filter (\<lambda>r. snd r \<noteq> PyTrainerState TERMINATE)
       (returned env t [0..<nat (trainer_num_epochs t)] (world s)))
   \<and> ((e, PyTrainerState TERMINATE)
         \<in> set (returned env t [0..<nat (trainer_num_epochs t)] (world s)) \<longrightarrow>
        count_list (events_since s (Trainer_fit env t s)) E_scheduler_step = e
        \<and> world (Trainer_fit env t s) =
            snd (epoch_stages env t e (fold (full_epoch env t) [0..<e] (world s))))
   \<and> (list_ex (\<lambda>r. snd r = PyTrainerState TERMINATE)
         (returned env t [0..<nat (trainer_num_epochs t)] (world s))
      \<or> world (Trainer_fit env t s) =
           fold (full_epoch env t) [0..<nat (trainer_num_epochs t)] (world s))"
proof -
  let ?n = "nat (trainer_num_epochs t)"
  let ?rs = "returned env t [0..<?n] (world s)"
  let ?evs = "events_since s (Trainer_fit env t s)"
  let ?nb = "length (loader_batches env (train_dataloader t))"
  from fit_loop_refines [of env t "[0..<?n]" s]
  have w: "world (Trainer_fit env t s) = epochs_world env t [0..<?n] (world s)"
    and tr: "trace (Trainer_fit env t s) = trace s @
       concat (map (\<lambda>r. epoch_events ?nb (stops r)) ?rs)"
    unfolding Trainer_fit_def by simp_all
  have ev: "?evs = concat (map (epoch_events ?nb) (map stops ?rs))"
    using events_since_append [OF tr] by (simp add: comp_def)
  have ok: "calls_ok [0..<?n] (map stops ?rs)" by (rule calls_ok_returned)
  have cnt: "count_list ?evs E_scheduler_step =
      length (filter (\<lambda>r. snd r \<noteq> PyTrainerState TERMINATE) ?rs)"
    unfolding ev count_sched_epochs by (simp add: filter_map comp_def stops_def)
  have brk: "(e, PyTrainerState TERMINATE) \<in> set ?rs \<longrightarrow>
        count_list ?evs E_scheduler_step = e
        \<and> world (Trainer_fit env t s) =
            snd (epoch_stages env t e (fold (full_epoch env t) [0..<e] (world s)))"
  proof
    assume m: "(e, PyTrainerState TERMINATE) \<in> set ?rs"
    then have "(e, True) \<in> set (map stops ?rs)" by (force simp: stops_def)
    from calls_ok_upt_break [OF ok this]
    have "length (filter (\<lambda>c. \<not> snd c) (map stops ?rs)) = e" by simp
    then have "count_list ?evs E_scheduler_step = e"
      unfolding ev count_sched_epochs .
    moreover from epochs_world_stop [OF m] w
    have "world (Trainer_fit env t s) =
            snd (epoch_stages env t e (fold (full_epoch env t) [0..<e] (world s)))" by simp
    ultimately show "count_list ?evs E_scheduler_step = e
        \<and> world (Trainer_fit env t s) =
            snd (epoch_stages env t e (fold (full_epoch env t) [0..<e] (world s)))" by simp
  qed
  have nobrk: "list_ex (\<lambda>r. snd r = PyTrainerState TERMINATE) ?rs
      \<or> world (Trainer_fit env t s) = fold (full_epoch env t) [0..<?n] (world s)"
    using epochs_world_no_stop [of env t 0 ?n "world s"] w by auto
  from cnt brk nobrk show ?thesis by blast
qed

text \<open>
  The concrete run ends at epoch 1 and has made one scheduler step: the world counts
  two training passes of 22 and one scheduler step of 100.
\<close>

theorem fit_scheduler_steps_witness:
  "(1, PyTrainerState TERMINATE) \<in> set (returned demo_env demo_trainer
       [0..<nat (trainer_num_epochs demo_trainer)] (world demo_state))
   \<and> count_list (events_since demo_state (Trainer_fit demo_env demo_trainer demo_state))
       E_scheduler_step = 1
   \<and> world (Trainer_fit demo_env demo_trainer demo_state) = 144"
proof -
  have h: "(1, PyTrainerState TERMINATE) \<in> set (returned demo_env demo_trainer
       [0..<nat (trainer_num_epochs demo_trainer)] (world demo_state))"
    by (simp add: demo_returned)
  with fit_scheduler_steps [of demo_state demo_env demo_trainer 1] show ?thesis
    by (simp add: demo_epoch_stages demo_full_epoch demo_state_def)
qed

subsection \<open>The constructor\<close>

lemma configure_callbacks_accept:
  "find (\<lambda>k. k \<notin> set callbacks_whitelist) (map fst cbs) = None \<Longrightarrow>
     isl (fst (configure_callbacks cbs attrs s)) = False"
  by (induction cbs arbitrary: attrs s) (auto simp: split_def split: if_splits)

lemma configure_callbacks_reject:
  "find (\<lambda>k. k \<notin> set callbacks_whitelist) (map fst cbs) = Some k \<Longrightarrow>
     fst (configure_callbacks cbs attrs s) = Inl (ValueError (''Not supported: '' @ k @ ''.''))"
  by (induction cbs arbitrary: attrs s) (auto simp: split_def split: if_splits)

lemma configure_callbacks_trace:
  "trace (snd (configure_callbacks cbs attrs s)) =
     trace s @ map E_setattr (takeWhile (\<lambda>k. k \<in> set callbacks_whitelist) (map fst cbs))"
  by (induction cbs arbitrary: attrs s) (auto simp: split_def trace_emit)

lemma configure_callbacks_distinct:
  "distinct (map fst cbs) \<Longrightarrow> fst (configure_callbacks cbs attrs s) = Inr attrs' \<Longrightarrow>
     attrs' = attrs ++ map_of cbs"
proof (induction cbs arbitrary: attrs s)
  case Nil
  then show ?case by simp
next
  case (Cons cb rest)
  obtain fn_name fn where cb: "cb = (fn_name, fn)" by (cases cb)
  from Cons.prems have wl: "fn_name \<in> set callbacks_whitelist"
    unfolding cb by (auto split: if_splits)
  with Cons.prems have "fst (configure_callbacks rest (attrs(fn_name \<mapsto> fn))
      (emit (E_setattr fn_name) s)) = Inr attrs'" and "distinct (map fst rest)"
    unfolding cb by simp_all
  from Cons.IH [OF this(2) this(1)] have "attrs' = attrs(fn_name \<mapsto> fn) ++ map_of rest" .
  moreover from Cons.prems(1) have "map_of rest fn_name = None"
    unfolding cb by (simp add: map_of_eq_None_iff)
  ultimately show ?case unfolding cb
    by (auto simp: fun_eq_iff map_add_def split: option.splits)
qed

lemma setattr_names_append: "setattr_names (xs @ ys) = setattr_names xs @ setattr_names ys"
  by (induction xs rule: setattr_names.induct) simp_all

lemma setattr_names_map: "setattr_names (map E_setattr ks) = ks"
  by (induction ks) simp_all

lemma Trainer_init_accept:
  "Accelerator env = Some new_accelerator \<Longrightarrow>
   find (\<lambda>k. k \<notin> set callbacks_whitelist) (map fst cbs) = None \<Longrightarrow>
     isl (fst (Trainer_init env m tr va cr opt sch cfg cbs s)) = False"
  by (simp add: Trainer_init_def Let_def split_def sum.case_eq_if configure_callbacks_accept)

lemma Trainer_init_reject:
  "Accelerator env = Some new_accelerator \<Longrightarrow>
   find (\<lambda>k. k \<notin> set callbacks_whitelist) (map fst cbs) = Some k \<Longrightarrow>
     fst (Trainer_init env m tr va cr opt sch cfg cbs s)
       = Inl (ValueError (''Not supported: '' @ k @ ''.''))"
  by (simp add: Trainer_init_def Let_def split_def configure_callbacks_reject)

lemma Trainer_init_trace:
  "Accelerator env = Some new_accelerator \<Longrightarrow>
   trace (snd (Trainer_init env m tr va cr opt sch cfg cbs s)) =
     trace s @ init_events
       @ map E_setattr (takeWhile (\<lambda>k. k \<in> set callbacks_whitelist) (map fst cbs))
       @ (if isl (fst (Trainer_init env m tr va cr opt sch cfg cbs s)) then [] else [E_getLogger])"
  by (simp add: Trainer_init_def Let_def split_def sum.case_eq_if init_events_def trace_emit
      trace_run configure_callbacks_trace)

lemma Trainer_init_overrides:
  assumes "Trainer_init env m tr va cr opt sch cfg cbs s0 = (Inr t, s1)"
    and "distinct (map fst cbs)"
  shows "overrides t = map_of cbs"
proof (cases "Accelerator env")
  case None
  with assms(1) show ?thesis by (simp add: Trainer_init_def)
next
  case (Some na)
  from assms(1) Some obtain s6 where
    "fst (configure_callbacks cbs Map.empty s6) = Inr (overrides t)"
    by (auto simp: Trainer_init_def Let_def split_def split: sum.splits)
  from configure_callbacks_distinct [OF assms(2) this] show ?thesis by simp
qed

text \<open>
  C8. Without the accelerate library the constructor raises \<^verbatim>\<open>ModuleNotFoundError\<close> at
  once: it returns no trainer, and the state is the one it was called in, so nothing was
  prepared and no callback was bound.
\<close>

theorem init_without_accelerate:
  "Accelerator env = None \<Longrightarrow>
     Trainer_init env m tr va cr opt sch cfg cbs s =
       (Inl (ModuleNotFoundError ''accelerate library is not installed: pip install kornia[x]''), s)"
  by (simp add: Trainer_init_def)

text \<open>
  The concrete world without accelerate.
\<close>

theorem init_without_accelerate_witness:
  "Accelerator demo_env_missing = None \<and>
   Trainer_init demo_env_missing (PyObj 20) (PyObj 21) (PyObj 22) (PyObj 23) (PyObj 24) (PyObj 25)
       demo_config demo_callbacks demo_state =
     (Inl (ModuleNotFoundError ''accelerate library is not installed: pip install kornia[x]''),
      demo_state)"
proof -
  have h: "Accelerator demo_env_missing = None"
    by (simp add: demo_env_missing_def)
  from h init_without_accelerate [OF h] show ?thesis by simp
qed

text \<open>
  C3, as stated, is false where the accelerate library is missing: the constructor
  then rejects a dictionary whose keys are all on the whitelist, and for a dictionary
  with a key that is not on it the exception is \<^verbatim>\<open>ModuleNotFoundError\<close>, not
  \<^verbatim>\<open>ValueError\<close>.
\<close>

theorem init_callbacks_counterexample:
  "set (map fst demo_callbacks) \<subseteq> set callbacks_whitelist
   \<and> fst (Trainer_init demo_env_missing (PyObj 20) (PyObj 21) (PyObj 22) (PyObj 23)
          (PyObj 24) (PyObj 25) demo_config demo_callbacks demo_state) =
       Inl (ModuleNotFoundError ''accelerate library is not installed: pip install kornia[x]'')
   \<and> \<not> set (map fst demo_bad_callbacks) \<subseteq> set callbacks_whitelist
   \<and> fst (Trainer_init demo_env_missing (PyObj 20) (PyObj 21) (PyObj 22) (PyObj 23)
          (PyObj 24) (PyObj 25) demo_config demo_bad_callbacks demo_state) =
       Inl (ModuleNotFoundError ''accelerate library is not installed: pip install kornia[x]'')"
  by (simp add: Trainer_init_def demo_env_missing_def demo_env_def demo_callbacks_def
      demo_bad_callbacks_def callbacks_whitelist_def)

text \<open>
  C3, amended. Where the accelerate library is importable, the constructor accepts a
  callbacks dictionary if and only if every key is one of the six names of the
  whitelist; for a dictionary with a key outside the whitelist it raises
  \<^verbatim>\<open>ValueError\<close>, naming the first such key; and the names it binds are the keys before
  that one, all of them on the whitelist.
\<close>

theorem init_callbacks_whitelist:
  assumes "Accelerator env = Some new_accelerator"
  shows "(let r = Trainer_init env m tr va cr opt sch cfg cbs s
          in (\<not> isl (fst r)) = (set (map fst cbs) \<subseteq> set callbacks_whitelist)
           \<and> (case find (\<lambda>k. k \<notin> set callbacks_whitelist) (map fst cbs) of
                None \<Rightarrow> \<not> isl (fst r)
              | Some k \<Rightarrow> fst r = Inl (ValueError (''Not supported: '' @ k @ ''.'')))
           \<and> setattr_names (events_since s (snd r)) =
               takeWhile (\<lambda>k. k \<in> set callbacks_whitelist) (map fst cbs)
           \<and> set (setattr_names (events_since s (snd r))) \<subseteq> set callbacks_whitelist
           \<and> set callbacks_whitelist =
               {''preprocess'', ''augmentations'', ''evaluate'', ''fit'', ''checkpoint'',
                ''terminate''})"
proof -
  let ?r = "Trainer_init env m tr va cr opt sch cfg cbs s"
  let ?f = "find (\<lambda>k. k \<notin> set callbacks_whitelist) (map fst cbs)"
  have b: "case ?f of None \<Rightarrow> \<not> isl (fst ?r)
              | Some k \<Rightarrow> fst ?r = Inl (ValueError (''Not supported: '' @ k @ ''.''))"
    using Trainer_init_accept [OF assms, of cbs] Trainer_init_reject [OF assms, of cbs]
    by (cases ?f) simp_all
  have a: "(\<not> isl (fst ?r)) = (set (map fst cbs) \<subseteq> set callbacks_whitelist)"
  proof (cases ?f)
    case None
    then have "set (map fst cbs) \<subseteq> set callbacks_whitelist"
      unfolding find_None_iff by blast
    with b None show ?thesis by simp
  next
    case (Some k)
    then have "k \<in> set (map fst cbs)" "k \<notin> set callbacks_whitelist"
      unfolding find_Some_iff by auto
    then have "\<not> set (map fst cbs) \<subseteq> set callbacks_whitelist" by blast
    with b Some show ?thesis by simp
  qed
  have ev: "events_since s (snd ?r) = init_events
       @ map E_setattr (takeWhile (\<lambda>k. k \<in> set callbacks_whitelist) (map fst cbs))
       @ (if isl (fst ?r) then [] else [E_getLogger])"
    by (rule events_since_append) (simp add: Trainer_init_trace [OF assms])
  have c: "setattr_names (events_since s (snd ?r)) =
      takeWhile (\<lambda>k. k \<in> set callbacks_whitelist) (map fst cbs)"
    by (simp add: ev setattr_names_append setattr_names_map init_events_def)
  have d: "set (setattr_names (events_since s (snd ?r))) \<subseteq> set callbacks_whitelist"
    unfolding c by (auto dest: set_takeWhileD)
  have e: "set callbacks_whitelist =
               {''preprocess'', ''augmentations'', ''evaluate'', ''fit'', ''checkpoint'',
                ''terminate''}"
    by (simp add: callbacks_whitelist_def)
  from a b c d e show ?thesis by (simp add: Let_def)
qed

text \<open>
  The concrete world: the key \<^verbatim>\<open>on_epoch_end\<close> is refused after \<^verbatim>\<open>terminate\<close> was
  bound, and the dictionary with the single key \<^verbatim>\<open>terminate\<close> is accepted.
\<close>

theorem init_callbacks_whitelist_witness:
  "Accelerator demo_env = Some demo_Accelerator
   \<and> fst (Trainer_init demo_env (PyObj 20) (PyObj 21) (PyObj 22) (PyObj 23) (PyObj 24)
            (PyObj 25) demo_config demo_bad_callbacks demo_state) =
       Inl (ValueError ''Not supported: on_epoch_end.'')
   \<and> setattr_names (events_since demo_state
        (snd (Trainer_init demo_env (PyObj 20) (PyObj 21) (PyObj 22) (PyObj 23) (PyObj 24)
            (PyObj 25) demo_config demo_bad_callbacks demo_state))) = [''terminate'']
   \<and> \<not> isl (fst (Trainer_init demo_env (PyObj 20) (PyObj 21) (PyObj 22) (PyObj 23) (PyObj 24)
            (PyObj 25) demo_config demo_callbacks demo_state))"
proof -
  have h: "Accelerator demo_env = Some demo_Accelerator"
    by (simp add: demo_env_def)
  from init_callbacks_whitelist [OF h, of "PyObj 20" "PyObj 21" "PyObj 22" "PyObj 23" "PyObj 24" "PyObj 25"
      demo_config demo_bad_callbacks demo_state]
  have "fst (Trainer_init demo_env (PyObj 20) (PyObj 21) (PyObj 22) (PyObj 23) (PyObj 24)
            (PyObj 25) demo_config demo_bad_callbacks demo_state) =
       Inl (ValueError ''Not supported: on_epoch_end.'')"
    and "setattr_names (events_since demo_state
        (snd (Trainer_init demo_env (PyObj 20) (PyObj 21) (PyObj 22) (PyObj 23) (PyObj 24)
            (PyObj 25) demo_config demo_bad_callbacks demo_state))) = [''terminate'']"
    by (simp_all add: Let_def demo_bad_callbacks_def callbacks_whitelist_def)
  moreover
  from init_callbacks_whitelist [OF h, of "PyObj 20" "PyObj 21" "PyObj 22" "PyObj 23" "PyObj 24" "PyObj 25"
      demo_config demo_callbacks demo_state]
  have "\<not> isl (fst (Trainer_init demo_env (PyObj 20) (PyObj 21) (PyObj 22) (PyObj 23) (PyObj 24)
            (PyObj 25) demo_config demo_callbacks demo_state))"
    by (simp add: Let_def demo_callbacks_def callbacks_whitelist_def)
  ultimately show ?thesis using h by simp
qed

text \<open>
  C5. In a trainer that the constructor returned for a callbacks dictionary (its keys
  are distinct), each call of a stage runs the function supplied under the name of the
  stage if there is one, and the method of the class otherwise. This holds for the five
  stages called during \<^verbatim>\<open>fit\<close> and for \<^verbatim>\<open>fit\<close> itself.
\<close>

theorem init_binds_callbacks:
  assumes "Trainer_init env m tr va cr opt sch cfg cbs s0 = (Inr t, s1)"
    and "distinct (map fst cbs)"
  shows "call_preprocess t x =
           (case map_of cbs ''preprocess'' of Some fn \<Rightarrow> fn [x] | None \<Rightarrow> Trainer_preprocess x)
       \<and> call_augmentations t x =
           (case map_of cbs ''augmentations'' of Some fn \<Rightarrow> fn [x]
            | None \<Rightarrow> Trainer_augmentations x)
       \<and> call_evaluate t =
           (case map_of cbs ''evaluate'' of Some fn \<Rightarrow> fn [] | None \<Rightarrow> Trainer_evaluate)
       \<and> call_checkpoint t args =
           (case map_of cbs ''checkpoint'' of Some fn \<Rightarrow> fn args
            | None \<Rightarrow> Trainer_checkpoint args)
       \<and> call_terminate t args =
           (case map_of cbs ''terminate'' of Some fn \<Rightarrow> fn args
            | None \<Rightarrow> Trainer_terminate args)
       \<and> call_fit env' t s =
           (case map_of cbs ''fit'' of Some fn \<Rightarrow> snd (run (fn []) s)
            | None \<Rightarrow> Trainer_fit env' t s)"
  unfolding call_preprocess_def call_augmentations_def call_evaluate_def call_checkpoint_def
    call_terminate_def call_fit_def Trainer_init_overrides [OF assms]
  by simp

text \<open>
  The concrete run: the supplied \<^verbatim>\<open>terminate\<close> answers at epoch 1, and
  \<^verbatim>\<open>preprocess\<close>, which was not supplied, is the default.
\<close>

theorem init_binds_callbacks_witness:
  "Trainer_init demo_env (PyObj 20) (PyObj 21) (PyObj 22) (PyObj 23) (PyObj 24) (PyObj 25)
     demo_config demo_callbacks demo_state = (Inr demo_trainer, demo_state_init)
   \<and> distinct (map fst demo_callbacks)
   \<and> call_terminate demo_trainer [PyObj 20, PyInt 1, PyNone] 0 = (PyTrainerState TERMINATE, 0)
   \<and> call_preprocess demo_trainer (PyObj 10) 0 = (PyObj 10, 0)"
proof -
  have d: "distinct (map fst demo_callbacks)" by (simp add: demo_callbacks_def)
  from init_binds_callbacks [OF demo_init d, of "PyObj 10" "[PyObj 20, PyInt 1, PyNone]"]
  have "call_terminate demo_trainer [PyObj 20, PyInt 1, PyNone] 0 = (PyTrainerState TERMINATE, 0)"
    and "call_preprocess demo_trainer (PyObj 10) 0 = (PyObj 10, 0)"
    by (simp_all add: demo_callbacks_def Trainer_preprocess_def)
  with demo_init d show ?thesis by simp
qed

text \<open>
  C6. The default \<^verbatim>\<open>preprocess\<close> and \<^verbatim>\<open>augmentations\<close> return their argument and
  leave the world as it is; the default \<^verbatim>\<open>evaluate\<close>, \<^verbatim>\<open>checkpoint\<close> and
  \<^verbatim>\<open>terminate\<close> return \<^verbatim>\<open>None\<close> and leave the world as it is. This is what the
  methods of the class do, and what the stages of a trainer built without callbacks do.
\<close>

theorem default_stages:
  assumes "Trainer_init env m tr va cr opt sch cfg [] s0 = (Inr t, s1)"
  shows "call_preprocess t x w = (x, w)
       \<and> call_augmentations t x w = (x, w)
       \<and> call_evaluate t w = (PyNone, w)
       \<and> call_checkpoint t args w = (PyNone, w)
       \<and> call_terminate t args w = (PyNone, w)
       \<and> Trainer_preprocess x w = (x, w)
       \<and> Trainer_augmentations x w = (x, w)
       \<and> Trainer_evaluate w = (PyNone, w)
       \<and> Trainer_checkpoint args w = (PyNone, w)
       \<and> Trainer_terminate args w = (PyNone, w)"
proof -
  have "overrides t = map_of []"
    by (rule Trainer_init_overrides [OF assms]) simp
  then show ?thesis
    by (simp add: call_preprocess_def call_augmentations_def call_evaluate_def
        call_checkpoint_def call_terminate_def Trainer_preprocess_def
        Trainer_augmentations_def Trainer_evaluate_def Trainer_checkpoint_def
        Trainer_terminate_def)
qed

text \<open>
  The concrete trainer built with an empty dictionary.
\<close>

theorem default_stages_witness:
  "Trainer_init demo_env (PyObj 20) (PyObj 21) (PyObj 22) (PyObj 23) (PyObj 24) (PyObj 25)
     demo_config [] demo_state =
   (Inr demo_default_trainer,
    demo_state\<lparr>trace := [E_Accelerator, E_prepare_model, E_prepare_train_dataloader,
               E_prepare_valid_dataloader, E_criterion_to, E_prepare_optimizer, E_getLogger]\<rparr>)
   \<and> call_preprocess demo_default_trainer (PyObj 10) (5::int) = (PyObj 10, 5)
   \<and> call_terminate demo_default_trainer [PyObj 20, PyInt 1, PyNone] (5::int) = (PyNone, 5)"
  using demo_init_default default_stages [OF demo_init_default, of "PyObj 10" 5 "[PyObj 20, PyInt 1, PyNone]"]
  by blast

subsection \<open>The running-average meter\<close>

lemma meter_updates_snoc:
  "meter_updates m (us @ [u]) = AverageMeter_update (meter_updates m us) (fst u) (snd u)"
  by (simp add: meter_updates_def)

lemma meter_updates_sum:
  "sum (meter_updates m us) = sum m + sum_list (map (\<lambda>u. fst u * of_nat (snd u)) us)
   \<and> count (meter_updates m us) = count m + sum_list (map snd us)"
proof (induction us rule: rev_induct)
  case Nil
  show ?case by (simp add: meter_updates_def)
next
  case (snoc u us)
  then show ?case
    by (simp add: meter_updates_snoc AverageMeter_update_def Let_def)
qed

text \<open>
  C7. After at least one update, with a positive total count, the current value of the
  meter is the value of the last update and its average is the sum of value times count
  over all updates since the meter was created, divided by the sum of the counts.
  (\<^verbatim>\<open>fit_epoch\<close> makes one update for each training batch, with \<^verbatim>\<open>loss.item()\<close> and
  \<^verbatim>\<open>img.shape[0]\<close>.)
\<close>

theorem average_meter_mean:
  assumes "us \<noteq> []" and "0 < sum_list (map snd us)"
  shows "val (meter_updates AverageMeter_init us) = fst (last us)
       \<and> avg (meter_updates AverageMeter_init us) =
           sum_list (map (\<lambda>u. fst u * of_nat (snd u)) us) / of_nat (sum_list (map snd us))"
proof -
  from assms(1) obtain vs u where us: "us = vs @ [u]"
    by (cases us rule: rev_cases) auto
  have s: "sum (meter_updates AverageMeter_init vs) =
             sum_list (map (\<lambda>u. fst u * of_nat (snd u)) vs)"
    and c: "count (meter_updates AverageMeter_init vs) = sum_list (map snd vs)"
    using meter_updates_sum [of AverageMeter_init vs] by (simp_all add: AverageMeter_init_def)
  show ?thesis
    unfolding us meter_updates_snoc
    by (simp add: AverageMeter_update_def Let_def s c)
qed

text \<open>
  Two updates: the value 1/2 with count 4, then the value 2 with count 2.
\<close>

theorem average_meter_mean_witness:
  "demo_updates \<noteq> [] \<and> 0 < sum_list (map snd demo_updates)
   \<and> val (meter_updates AverageMeter_init demo_updates) = 2
   \<and> avg (meter_updates AverageMeter_init demo_updates) = 1"
proof -
  have a: "demo_updates \<noteq> []" and b: "0 < sum_list (map snd demo_updates)"
    by (simp_all add: demo_updates_def)
  from average_meter_mean [OF a b] a b show ?thesis by (simp add: demo_updates_def)
qed

end
